theory Spec2Isabelle
  imports Main
begin

section \<open>Python values\<close>

text \<open>
  The values that travel through the bridge: JSON tool arguments, the configuration
  file and XML-RPC replies. A dictionary is an association list in insertion order
  with string keys. Strings are UTF-8 byte lists. \<open>PObject t b\<close> is any other runtime
  object (a float, an XML-RPC date or binary): the code only ever observes its type
  name \<open>t\<close> and its truth value \<open>b\<close>.
\<close>

datatype pyval =
    PNone
  | PBool bool
  | PInt int
  | PStr string
  | PList "pyval list"
  | PDict "(string \<times> pyval) list"
  | PObject string bool

text \<open>Truth value testing, as \<^verbatim>\<open>not x\<close>, \<^verbatim>\<open>if x\<close> and \<^verbatim>\<open>x or y\<close> use it.\<close>

fun truthy :: "pyval \<Rightarrow> bool" where
  "truthy PNone = False"
| "truthy (PBool b) = b"
| "truthy (PInt i) = (i \<noteq> 0)"
| "truthy (PStr s) = (s \<noteq> [])"
| "truthy (PList xs) = (xs \<noteq> [])"
| "truthy (PDict kvs) = (kvs \<noteq> [])"
| "truthy (PObject t b) = b"

fun type_name :: "pyval \<Rightarrow> string" where
  "type_name PNone = ''NoneType''"
| "type_name (PBool b) = ''bool''"
| "type_name (PInt i) = ''int''"
| "type_name (PStr s) = ''str''"
| "type_name (PList xs) = ''list''"
| "type_name (PDict kvs) = ''dict''"
| "type_name (PObject t b) = t"

text \<open>
  Exceptions. All of them are instances of Python's \<^verbatim>\<open>Exception\<close>: the generic
  \<^verbatim>\<open>Exception(msg)\<close> the client raises, the interpreter's own errors, and
  \<open>OtherError cls msg\<close> for every other subclass (an XML-RPC fault, a protocol or
  socket error), with its class name and message.
\<close>

datatype exn =
    PyException string
  | KeyError pyval
  | TypeError string
  | AttributeError string
  | OtherError string string

text \<open>A Python \<^verbatim>\<open>str\<close> is a sequence of code points; \<open>codepoints\<close> splits the UTF-8
  bytes accordingly (a byte \<open>10xxxxxx\<close> continues the code point before it).\<close>

definition is_continuation :: "char \<Rightarrow> bool" where
  "is_continuation ch = ((of_char ch :: nat) div 64 = 2)"

function codepoints :: "string \<Rightarrow> string list" where
  "codepoints [] = []"
| "codepoints (ch # cs) =
     (ch # takeWhile is_continuation cs) # codepoints (dropWhile is_continuation cs)"
  by pat_completeness auto
termination
  by (relation "measure length") (auto simp: length_dropWhile_le less_Suc_eq_le)

definition quoted :: "string \<Rightarrow> string" where
  "quoted s = [CHR 0x27] @ s @ [CHR 0x27]"

definition not_subscriptable :: "pyval \<Rightarrow> exn" where
  "not_subscriptable v = TypeError (quoted (type_name v) @ '' object is not subscriptable'')"

definition no_attribute :: "pyval \<Rightarrow> string \<Rightarrow> exn" where
  "no_attribute v a =
     AttributeError (quoted (type_name v) @ '' object has no attribute '' @ quoted a)"

text \<open>\<^verbatim>\<open>v[key]\<close> with a string key.\<close>

fun py_getitem :: "pyval \<Rightarrow> string \<Rightarrow> exn + pyval" where
  "py_getitem (PDict kvs) k =
     (case map_of kvs k of Some x \<Rightarrow> Inr x | None \<Rightarrow> Inl (KeyError (PStr k)))"
| "py_getitem (PStr s) k = Inl (TypeError (''string indices must be integers, not '' @ quoted ''str''))"
| "py_getitem (PList xs) k = Inl (TypeError ''list indices must be integers or slices, not str'')"
| "py_getitem v k = Inl (not_subscriptable v)"

text \<open>\<^verbatim>\<open>v.get(key, default)\<close>; only a dictionary has the method.\<close>

fun py_get :: "pyval \<Rightarrow> string \<Rightarrow> pyval \<Rightarrow> exn + pyval" where
  "py_get (PDict kvs) k d = (case map_of kvs k of Some x \<Rightarrow> Inr x | None \<Rightarrow> Inr d)"
| "py_get v k d = Inl (no_attribute v ''get'')"

text \<open>\<^verbatim>\<open>v.items()\<close>.\<close>

fun py_items :: "pyval \<Rightarrow> exn + (string \<times> pyval) list" where
  "py_items (PDict kvs) = Inr kvs"
| "py_items v = Inl (no_attribute v ''items'')"

text \<open>\<^verbatim>\<open>for m in v\<close>: the elements a loop or comprehension visits.\<close>

fun py_iter :: "pyval \<Rightarrow> exn + pyval list" where
  "py_iter (PList xs) = Inr xs"
| "py_iter (PStr s) = Inr (map PStr (codepoints s))"
| "py_iter (PDict kvs) = Inr (map (\<lambda>kv. PStr (fst kv)) kvs)"
| "py_iter v = Inl (TypeError (quoted (type_name v) @ '' object is not iterable''))"

text \<open>\<^verbatim>\<open>len(v)\<close>.\<close>

fun py_len :: "pyval \<Rightarrow> exn + nat" where
  "py_len (PList xs) = Inr (length xs)"
| "py_len (PStr s) = Inr (length (codepoints s))"
| "py_len (PDict kvs) = Inr (length kvs)"
| "py_len v = Inl (TypeError (''object of type '' @ quoted (type_name v) @ '' has no len()''))"

text \<open>\<^verbatim>\<open>v[0]\<close>.\<close>

fun py_first :: "pyval \<Rightarrow> exn + pyval" where
  "py_first (PList []) = Inl (OtherError ''IndexError'' ''list index out of range'')"
| "py_first (PList (x # xs)) = Inr x"
| "py_first (PStr s) =
     (case codepoints s of
        [] \<Rightarrow> Inl (OtherError ''IndexError'' ''string index out of range'')
      | c # cs \<Rightarrow> Inr (PStr c))"
| "py_first (PDict kvs) = Inl (KeyError (PInt 0))"
| "py_first v = Inl (not_subscriptable v)"

text \<open>\<^verbatim>\<open>v[:n]\<close>. A dictionary rejects a slice as a key (a \<^verbatim>\<open>TypeError\<close> up to
  Python 3.11, a \<^verbatim>\<open>KeyError\<close> since).\<close>

fun py_prefix :: "nat \<Rightarrow> pyval \<Rightarrow> exn + pyval" where
  "py_prefix n (PList xs) = Inr (PList (take n xs))"
| "py_prefix n (PStr s) = Inr (PStr (concat (take n (codepoints s))))"
| "py_prefix n (PDict kvs) = Inl (TypeError (''unhashable type: '' @ quoted ''slice''))"
| "py_prefix n v = Inl (not_subscriptable v)"

text \<open>Running a function that may raise over a list, left to right, stopping at the
  first exception.\<close>

fun collect :: "('a \<Rightarrow> exn + 'b) \<Rightarrow> 'a list \<Rightarrow> exn + 'b list" where
  "collect f [] = Inr []"
| "collect f (x # xs) =
     (case f x of
        Inl e \<Rightarrow> Inl e
      | Inr y \<Rightarrow> (case collect f xs of Inl e \<Rightarrow> Inl e | Inr ys \<Rightarrow> Inr (y # ys)))"

section \<open>The remote server and the runtime\<close>

text \<open>
  A call on one of the two XML-RPC proxies: the endpoint URL the proxy is bound to,
  then the arguments in the order the code passes them. \<^verbatim>\<open>execute_kw\<close> takes the
  keyword dictionary as an optional last argument.
\<close>

datatype rpc =
    Authenticate string pyval pyval pyval pyval
  | Version string
  | ExecuteKw string pyval pyval pyval pyval string "pyval list" "(string \<times> pyval) list option"

text \<open>The world is the log of proxy calls made so far, oldest first.\<close>

type_synonym world = "rpc list"

text \<open>
  What the code takes from outside the repository:
  \<^item> \<open>py_str\<close>, \<open>py_repr\<close>: Python's \<^verbatim>\<open>str()\<close> and \<^verbatim>\<open>repr()\<close>;
  \<^item> \<open>json_dumps\<close>: \<^verbatim>\<open>json.dumps(v, indent=2, ensure_ascii=False)\<close>, which may raise;
  \<^item> \<open>server_proxy\<close>: what constructing \<^verbatim>\<open>xmlrpc.client.ServerProxy(uri)\<close> raises, if
    anything (it rejects a URI that is neither http nor https);
  \<^item> \<open>remote\<close>: the outcome of a proxy call, a value or an exception, as a function of
    the calls made before it and of the call itself;
  \<^item> \<open>config\<close>: the parsed \<^verbatim>\<open>config.json\<close>.
\<close>

record env =
  py_str :: "pyval \<Rightarrow> string"
  py_repr :: "pyval \<Rightarrow> string"
  json_dumps :: "pyval \<Rightarrow> exn + string"
  server_proxy :: "string \<Rightarrow> exn option"
  remote :: "world \<Rightarrow> rpc \<Rightarrow> exn + pyval"
  config :: pyval

text \<open>\<^verbatim>\<open>str(e)\<close>.\<close>

fun exn_str :: "env \<Rightarrow> exn \<Rightarrow> string" where
  "exn_str E (PyException m) = m"
| "exn_str E (KeyError k) = py_repr E k"
| "exn_str E (TypeError m) = m"
| "exn_str E (AttributeError m) = m"
| "exn_str E (OtherError cls m) = m"

definition call_remote :: "env \<Rightarrow> world \<Rightarrow> rpc \<Rightarrow> (exn + pyval) \<times> world" where
  "call_remote E w r = (remote E w r, w @ [r])"

section \<open>The client (odoo\_client.py)\<close>

record OdooClient =
  url :: pyval
  db :: pyval
  username :: pyval
  password :: pyval
  uid :: pyval
  models :: pyval
  common :: string
  models_endpoint :: string

text \<open>\<^verbatim>\<open>OdooClient.__init__\<close>: the fields, then the two proxies.\<close>

definition OdooClient_init :: "env \<Rightarrow> pyval \<Rightarrow> pyval \<Rightarrow> pyval \<Rightarrow> pyval \<Rightarrow> exn + OdooClient" where
  "OdooClient_init E u d usr pw =
     (let ce = py_str E u @ ''/xmlrpc/2/common'';
          oe = py_str E u @ ''/xmlrpc/2/object''
      in case server_proxy E ce of
           Some e \<Rightarrow> Inl e
         | None \<Rightarrow>
             (case server_proxy E oe of
                Some e \<Rightarrow> Inl e
              | None \<Rightarrow>
                  Inr \<lparr>url = u, db = d, username = usr, password = pw, uid = PNone,
                       models = PNone, common = ce, models_endpoint = oe\<rparr>))"

text \<open>\<^verbatim>\<open>connect\<close>: the result, the client after the call, the world after the call.
  \<^verbatim>\<open>self.uid is not False\<close> compares with the one object \<^verbatim>\<open>False\<close>.\<close>

definition connect :: "env \<Rightarrow> OdooClient \<Rightarrow> world \<Rightarrow> bool \<times> OdooClient \<times> world" where
  "connect E c w =
     (case call_remote E w (Authenticate (common c) (db c) (username c) (password c) (PDict [])) of
        (Inr v, w') \<Rightarrow> (v \<noteq> PBool False, c\<lparr>uid := v\<rparr>, w')
      | (Inl e, w') \<Rightarrow> (False, c, w'))"

definition get_version :: "env \<Rightarrow> OdooClient \<Rightarrow> world \<Rightarrow> pyval \<times> world" where
  "get_version E c w =
     (case call_remote E w (Version (common c)) of
        (Inr v, w') \<Rightarrow> (v, w')
      | (Inl e, w') \<Rightarrow> (PDict [(''error'', PStr (exn_str E e))], w'))"

definition not_connected :: exn where
  "not_connected = PyException ''No conectado a Odoo''"

text \<open>An omitted argument takes the default of the signature.\<close>

definition dflt :: "'a \<Rightarrow> 'a option \<Rightarrow> 'a" where
  "dflt d x = (case x of None \<Rightarrow> d | Some v \<Rightarrow> v)"

definition execute_kw ::
  "env \<Rightarrow> OdooClient \<Rightarrow> world \<Rightarrow> pyval \<Rightarrow> string \<Rightarrow> pyval list \<Rightarrow> (string \<times> pyval) list option
     \<Rightarrow> (exn + pyval) \<times> world" where
  "execute_kw E c w model method args kwargs =
     call_remote E w (ExecuteKw (models_endpoint c) (db c) (uid c) (password c) model method args kwargs)"

definition search ::
  "env \<Rightarrow> OdooClient \<Rightarrow> world \<Rightarrow> pyval \<Rightarrow> pyval option \<Rightarrow> pyval option \<Rightarrow> (exn + pyval) \<times> world" where
  "search E c w model domain_arg limit_arg =
     (let domain = dflt PNone domain_arg; limit = dflt (PInt 100) limit_arg
      in if \<not> truthy (uid c) then (Inl not_connected, w)
         else let domain = (if truthy domain then domain else PList [])
              in execute_kw E c w model ''search'' [domain] (Some [(''limit'', limit)]))"

definition read ::
  "env \<Rightarrow> OdooClient \<Rightarrow> world \<Rightarrow> pyval \<Rightarrow> pyval \<Rightarrow> pyval option \<Rightarrow> (exn + pyval) \<times> world" where
  "read E c w model ids fields_arg =
     (let fields = dflt PNone fields_arg
      in if \<not> truthy (uid c) then (Inl not_connected, w)
         else let params = (if truthy fields then [(''fields'', fields)] else [])
              in execute_kw E c w model ''read'' [ids] (Some params))"

definition search_read ::
  "env \<Rightarrow> OdooClient \<Rightarrow> world \<Rightarrow> pyval \<Rightarrow> pyval option \<Rightarrow> pyval option \<Rightarrow> pyval option
     \<Rightarrow> (exn + pyval) \<times> world" where
  "search_read E c w model domain_arg fields_arg limit_arg =
     (let domain = dflt PNone domain_arg; fields = dflt PNone fields_arg;
          limit = dflt (PInt 100) limit_arg
      in if \<not> truthy (uid c) then (Inl not_connected, w)
         else let domain = (if truthy domain then domain else PList []);
                  params = [(''limit'', limit)] @ (if truthy fields then [(''fields'', fields)] else [])
              in execute_kw E c w model ''search_read'' [domain] (Some params))"

definition create :: "env \<Rightarrow> OdooClient \<Rightarrow> world \<Rightarrow> pyval \<Rightarrow> pyval \<Rightarrow> (exn + pyval) \<times> world" where
  "create E c w model vals =
     (if \<not> truthy (uid c) then (Inl not_connected, w)
      else execute_kw E c w model ''create'' [vals] None)"

definition update ::
  "env \<Rightarrow> OdooClient \<Rightarrow> world \<Rightarrow> pyval \<Rightarrow> pyval \<Rightarrow> pyval \<Rightarrow> (exn + pyval) \<times> world" where
  "update E c w model ids vals =
     (if \<not> truthy (uid c) then (Inl not_connected, w)
      else execute_kw E c w model ''write'' [ids, vals] None)"

definition delete :: "env \<Rightarrow> OdooClient \<Rightarrow> world \<Rightarrow> pyval \<Rightarrow> pyval \<Rightarrow> (exn + pyval) \<times> world" where
  "delete E c w model ids =
     (if \<not> truthy (uid c) then (Inl not_connected, w)
      else execute_kw E c w model ''unlink'' [ids] None)"

definition get_fields :: "env \<Rightarrow> OdooClient \<Rightarrow> world \<Rightarrow> pyval \<Rightarrow> (exn + pyval) \<times> world" where
  "get_fields E c w model =
     (if \<not> truthy (uid c) then (Inl not_connected, w)
      else execute_kw E c w model ''fields_get'' []
             (Some [(''attributes'',
                     PList [PStr ''string'', PStr ''help'', PStr ''type'', PStr ''required''])]))"

text \<open>One element of the comprehension in \<^verbatim>\<open>list_models\<close>.\<close>

definition model_entry :: "pyval \<Rightarrow> exn + pyval" where
  "model_entry m =
     (case py_getitem m ''model'' of
        Inl e \<Rightarrow> Inl e
      | Inr a \<Rightarrow>
          (case py_getitem m ''name'' of
             Inl e \<Rightarrow> Inl e
           | Inr b \<Rightarrow> Inr (PDict [(''model'', a), (''name'', b)])))"

definition list_models :: "env \<Rightarrow> OdooClient \<Rightarrow> world \<Rightarrow> (exn + pyval list) \<times> world" where
  "list_models E c w =
     (if \<not> truthy (uid c) then (Inl not_connected, w)
      else case search_read E c w (PStr ''ir.model'') (Some (PList []))
                  (Some (PList [PStr ''model'', PStr ''name''])) (Some (PInt 500)) of
             (Inl e, w') \<Rightarrow> (Inl e, w')
           | (Inr ms, w') \<Rightarrow>
               (case py_iter ms of
                  Inl e \<Rightarrow> (Inl e, w')
                | Inr xs \<Rightarrow> (collect model_entry xs, w')))"

section \<open>The dispatcher (server.py)\<close>

subsection \<open>Symbols of the message texts\<close>

definition check_mark :: string where "check_mark = [CHR 0xE2, CHR 0x9C, CHR 0x85]"
definition cross_mark :: string where "cross_mark = [CHR 0xE2, CHR 0x9D, CHR 0x8C]"
definition clipboard :: string where "clipboard = [CHR 0xF0, CHR 0x9F, CHR 0x93, CHR 0x8B]"
definition bullet :: string where "bullet = [CHR 0xE2, CHR 0x80, CHR 0xA2]"
definition magnifier :: string where "magnifier = [CHR 0xF0, CHR 0x9F, CHR 0x94, CHR 0x8D]"
definition open_book :: string where "open_book = [CHR 0xF0, CHR 0x9F, CHR 0x93, CHR 0x96]"
definition id_button :: string where "id_button = [CHR 0xF0, CHR 0x9F, CHR 0x86, CHR 0x94]"
definition wastebasket :: string where
  "wastebasket = [CHR 0xF0, CHR 0x9F, CHR 0x97, CHR 0x91, CHR 0xEF, CHR 0xB8, CHR 0x8F]"
definition bar_chart :: string where "bar_chart = [CHR 0xF0, CHR 0x9F, CHR 0x93, CHR 0x8A]"
definition warning_sign :: string where
  "warning_sign = [CHR 0xE2, CHR 0x9A, CHR 0xA0, CHR 0xEF, CHR 0xB8, CHR 0x8F]"
definition right_arrow :: string where "right_arrow = [CHR 0xE2, CHR 0x86, CHR 0x92]"
definition e_acute :: string where "e_acute = [CHR 0xC3, CHR 0xA9]"
definition i_acute :: string where "i_acute = [CHR 0xC3, CHR 0xAD]"
definition o_acute :: string where "o_acute = [CHR 0xC3, CHR 0xB3]"
definition u_acute :: string where "u_acute = [CHR 0xC3, CHR 0xBA]"

subsection \<open>The catalog\<close>

datatype Tool = Tool (tool_name: string) (description: string) (inputSchema: pyval)

datatype TextContent = TextContent (content_type: string) (content_text: string)

definition object_schema :: "(string \<times> pyval) list \<Rightarrow> string list \<Rightarrow> pyval" where
  "object_schema props req =
     PDict [(''type'', PStr ''object''), (''properties'', PDict props),
            (''required'', PList (map PStr req))]"

definition schema_prop :: "string \<Rightarrow> string \<Rightarrow> pyval" where
  "schema_prop t d = PDict [(''type'', PStr t), (''description'', PStr d)]"

definition prop_default :: "string \<Rightarrow> string \<Rightarrow> pyval \<Rightarrow> pyval" where
  "prop_default t d v = PDict [(''type'', PStr t), (''description'', PStr d), (''default'', v)]"

definition list_tools :: "Tool list" where
  "list_tools =
     [Tool ''connect_odoo'' ''Conectar con el servidor Odoo'' (object_schema [] []),
      Tool ''list_models'' ''Listar todos los modelos disponibles en Odoo'' (object_schema [] []),
      Tool ''search_records'' ''Buscar registros en un modelo de Odoo''
        (object_schema
           [(''model'', schema_prop ''string'' ''Nombre del modelo (ej: res.partner)''),
            (''domain'', prop_default ''array'' (''Dominio de b'' @ u_acute @ ''squeda Odoo'') (PList [])),
            (''fields'', prop_default ''array'' ''Campos a retornar'' (PList [])),
            (''limit'', prop_default ''integer'' (''L'' @ i_acute @ ''mite de registros'') (PInt 10))]
           [''model'']),
      Tool ''read_record'' (''Leer un registro espec'' @ i_acute @ ''fico por ID'')
        (object_schema
           [(''model'', schema_prop ''string'' ''Nombre del modelo''),
            (''record_id'', schema_prop ''integer'' ''ID del registro''),
            (''fields'', prop_default ''array'' ''Campos a retornar'' (PList []))]
           [''model'', ''record_id'']),
      Tool ''create_record'' ''Crear un nuevo registro en Odoo''
        (object_schema
           [(''model'', schema_prop ''string'' ''Nombre del modelo''),
            (''values'', schema_prop ''object'' ''Valores del nuevo registro'')]
           [''model'', ''values'']),
      Tool ''update_record'' ''Actualizar un registro existente''
        (object_schema
           [(''model'', schema_prop ''string'' ''Nombre del modelo''),
            (''record_id'', schema_prop ''integer'' ''ID del registro''),
            (''values'', schema_prop ''object'' ''Valores a actualizar'')]
           [''model'', ''record_id'', ''values'']),
      Tool ''delete_record'' ''Eliminar un registro de Odoo''
        (object_schema
           [(''model'', schema_prop ''string'' ''Nombre del modelo''),
            (''record_id'', schema_prop ''integer'' ''ID del registro a eliminar'')]
           [''model'', ''record_id'']),
      Tool ''get_model_fields'' (''Obtener informaci'' @ o_acute @ ''n sobre los campos de un modelo'')
        (object_schema [(''model'', schema_prop ''string'' ''Nombre del modelo'')] [''model''])]"

subsection \<open>Connecting\<close>

text \<open>
  \<^verbatim>\<open>initialize_odoo\<close>: the result or the exception, the global \<^verbatim>\<open>odoo_client\<close> and the
  world afterwards. The global is assigned once the constructor has returned, and
  \<^verbatim>\<open>connect\<close> then updates that object. Log output is not part of the state.
\<close>

definition initialize_odoo ::
  "env \<Rightarrow> OdooClient option \<Rightarrow> world \<Rightarrow> (exn + bool) \<times> OdooClient option \<times> world" where
  "initialize_odoo E g w =
     (case py_getitem (config E) ''odoo'' of
        Inl e \<Rightarrow> (Inl e, g, w)
      | Inr odoo_config \<Rightarrow>
     (case py_getitem odoo_config ''url'' of
        Inl e \<Rightarrow> (Inl e, g, w)
      | Inr u \<Rightarrow>
     (case py_getitem odoo_config ''database'' of
        Inl e \<Rightarrow> (Inl e, g, w)
      | Inr d \<Rightarrow>
     (case py_getitem odoo_config ''username'' of
        Inl e \<Rightarrow> (Inl e, g, w)
      | Inr usr \<Rightarrow>
     (case py_getitem odoo_config ''password'' of
        Inl e \<Rightarrow> (Inl e, g, w)
      | Inr pw \<Rightarrow>
     (case OdooClient_init E u d usr pw of
        Inl e \<Rightarrow> (Inl e, g, w)
      | Inr c \<Rightarrow>
          (case connect E c w of
             (True, c', w') \<Rightarrow>
               (case get_version E c' w' of
                  (version, w'') \<Rightarrow>
                    (case py_get version ''server_serie'' (PStr ''Unknown'') of
                       Inl e \<Rightarrow> (Inl e, Some c', w'')
                     | Inr serie \<Rightarrow> (Inr True, Some c', w'')))
           | (False, c', w') \<Rightarrow> (Inr False, Some c', w'))))))))"

subsection \<open>The tool handlers\<close>

definition connected_msg :: string where
  "connected_msg = check_mark @ '' Conectado exitosamente a Odoo''"

definition connect_failed_msg :: string where
  "connect_failed_msg = cross_mark @ '' Error al conectar con Odoo. Verifica las credenciales.''"

definition no_connection_msg :: string where
  "no_connection_msg =
     cross_mark @ '' No hay conexi'' @ o_acute @ ''n con Odoo. Usa 'connect_odoo' primero.''"

definition unknown_tool_msg :: "string \<Rightarrow> string" where
  "unknown_tool_msg name = cross_mark @ '' Herramienta desconocida: '' @ name"

definition error_msg :: "env \<Rightarrow> exn \<Rightarrow> string" where
  "error_msg E e = cross_mark @ '' Error: '' @ exn_str E e"

text \<open>\<^verbatim>\<open>arguments.get(key, default)\<close> on the argument dictionary.\<close>

definition args_get :: "(string \<times> pyval) list \<Rightarrow> string \<Rightarrow> pyval \<Rightarrow> pyval" where
  "args_get arguments k d = (case map_of arguments k of Some x \<Rightarrow> x | None \<Rightarrow> d)"

text \<open>The loop over \<^verbatim>\<open>models[:20]\<close>: the lines it appends, or the first exception.\<close>

fun models_lines :: "env \<Rightarrow> pyval list \<Rightarrow> exn + string" where
  "models_lines E [] = Inr []"
| "models_lines E (m # ms) =
     (case py_getitem m ''model'' of
        Inl e \<Rightarrow> Inl e
      | Inr a \<Rightarrow>
          (case py_getitem m ''name'' of
             Inl e \<Rightarrow> Inl e
           | Inr b \<Rightarrow>
               (case models_lines E ms of
                  Inl e \<Rightarrow> Inl e
                | Inr rest \<Rightarrow>
                    Inr (''  '' @ bullet @ '' '' @ py_str E a @ '': '' @ py_str E b @ ''\<newline>'' @ rest))))"

definition tool_list_models ::
  "env \<Rightarrow> OdooClient \<Rightarrow> world \<Rightarrow> (exn + TextContent list) \<times> world" where
  "tool_list_models E c w =
     (case list_models E c w of
        (Inl e, w') \<Rightarrow> (Inl e, w')
      | (Inr ms, w') \<Rightarrow>
          (case models_lines E (take 20 ms) of
             Inl e \<Rightarrow> (Inl e, w')
           | Inr body \<Rightarrow>
               (Inr [TextContent ''text''
                      (clipboard @ '' Modelos disponibles:\<newline>'' @ body
                       @ ''\<newline>(Mostrando 20 de '' @ py_str E (PInt (int (length ms)))
                       @ '' modelos)'')], w')))"

definition tool_search_records ::
  "env \<Rightarrow> OdooClient \<Rightarrow> world \<Rightarrow> (string \<times> pyval) list \<Rightarrow> (exn + TextContent list) \<times> world" where
  "tool_search_records E c w arguments =
     (case py_getitem (PDict arguments) ''model'' of
        Inl e \<Rightarrow> (Inl e, w)
      | Inr model \<Rightarrow>
          (let domain = args_get arguments ''domain'' (PList []);
               fields = args_get arguments ''fields'' (PList []);
               limit = args_get arguments ''limit'' (PInt 10)
           in case search_read E c w model (Some domain) (Some fields) (Some limit) of
                (Inl e, w') \<Rightarrow> (Inl e, w')
              | (Inr records, w') \<Rightarrow>
                  if \<not> truthy records
                  then (Inr [TextContent ''text'' ''No se encontraron registros''], w')
                  else (case py_len records of
                          Inl e \<Rightarrow> (Inl e, w')
                        | Inr n \<Rightarrow>
                            (case json_dumps E records of
                               Inl e \<Rightarrow> (Inl e, w')
                             | Inr js \<Rightarrow>
                                 (Inr [TextContent ''text''
                                        (magnifier @ '' Encontrados '' @ py_str E (PInt (int n))
                                         @ '' registros en '' @ py_str E model @ '':\<newline>'' @ js)],
                                  w')))))"

definition tool_read_record ::
  "env \<Rightarrow> OdooClient \<Rightarrow> world \<Rightarrow> (string \<times> pyval) list \<Rightarrow> (exn + TextContent list) \<times> world" where
  "tool_read_record E c w arguments =
     (case py_getitem (PDict arguments) ''model'' of
        Inl e \<Rightarrow> (Inl e, w)
      | Inr model \<Rightarrow>
     (case py_getitem (PDict arguments) ''record_id'' of
        Inl e \<Rightarrow> (Inl e, w)
      | Inr record_id \<Rightarrow>
          (let fields = args_get arguments ''fields'' (PList [])
           in case read E c w model (PList [record_id]) (Some fields) of
                (Inl e, w') \<Rightarrow> (Inl e, w')
              | (Inr records, w') \<Rightarrow>
                  if \<not> truthy records
                  then (Inr [TextContent ''text''
                              (''No se encontr'' @ o_acute @ '' el registro con ID ''
                               @ py_str E record_id)], w')
                  else (case py_first records of
                          Inl e \<Rightarrow> (Inl e, w')
                        | Inr r \<Rightarrow>
                            (case json_dumps E r of
                               Inl e \<Rightarrow> (Inl e, w')
                             | Inr js \<Rightarrow>
                                 (Inr [TextContent ''text''
                                        (open_book @ '' Registro '' @ py_str E model @ ''/''
                                         @ py_str E record_id @ '':\<newline>'' @ js)], w'))))))"

definition tool_create_record ::
  "env \<Rightarrow> OdooClient \<Rightarrow> world \<Rightarrow> (string \<times> pyval) list \<Rightarrow> (exn + TextContent list) \<times> world" where
  "tool_create_record E c w arguments =
     (case py_getitem (PDict arguments) ''model'' of
        Inl e \<Rightarrow> (Inl e, w)
      | Inr model \<Rightarrow>
     (case py_getitem (PDict arguments) ''values'' of
        Inl e \<Rightarrow> (Inl e, w)
      | Inr vals \<Rightarrow>
          (case create E c w model vals of
             (Inl e, w') \<Rightarrow> (Inl e, w')
           | (Inr new_id, w') \<Rightarrow>
               (Inr [TextContent ''text''
                      (check_mark @ '' Registro creado exitosamente!\<newline>'' @ clipboard
                       @ '' Modelo: '' @ py_str E model @ ''\<newline>'' @ id_button @ '' ID: ''
                       @ py_str E new_id)], w'))))"

definition tool_update_record ::
  "env \<Rightarrow> OdooClient \<Rightarrow> world \<Rightarrow> (string \<times> pyval) list \<Rightarrow> (exn + TextContent list) \<times> world" where
  "tool_update_record E c w arguments =
     (case py_getitem (PDict arguments) ''model'' of
        Inl e \<Rightarrow> (Inl e, w)
      | Inr model \<Rightarrow>
     (case py_getitem (PDict arguments) ''record_id'' of
        Inl e \<Rightarrow> (Inl e, w)
      | Inr record_id \<Rightarrow>
     (case py_getitem (PDict arguments) ''values'' of
        Inl e \<Rightarrow> (Inl e, w)
      | Inr vals \<Rightarrow>
          (case update E c w model (PList [record_id]) vals of
             (Inl e, w') \<Rightarrow> (Inl e, w')
           | (Inr success, w') \<Rightarrow>
               if truthy success
               then (Inr [TextContent ''text''
                           (check_mark @ '' Registro '' @ py_str E model @ ''/''
                            @ py_str E record_id @ '' actualizado exitosamente!'')], w')
               else (Inr [TextContent ''text''
                           (cross_mark @ '' Error al actualizar el registro '' @ py_str E model
                            @ ''/'' @ py_str E record_id)], w')))))"

definition tool_delete_record ::
  "env \<Rightarrow> OdooClient \<Rightarrow> world \<Rightarrow> (string \<times> pyval) list \<Rightarrow> (exn + TextContent list) \<times> world" where
  "tool_delete_record E c w arguments =
     (case py_getitem (PDict arguments) ''model'' of
        Inl e \<Rightarrow> (Inl e, w)
      | Inr model \<Rightarrow>
     (case py_getitem (PDict arguments) ''record_id'' of
        Inl e \<Rightarrow> (Inl e, w)
      | Inr record_id \<Rightarrow>
          (case delete E c w model (PList [record_id]) of
             (Inl e, w') \<Rightarrow> (Inl e, w')
           | (Inr success, w') \<Rightarrow>
               if truthy success
               then (Inr [TextContent ''text''
                           (wastebasket @ '' Registro '' @ py_str E model @ ''/''
                            @ py_str E record_id @ '' eliminado exitosamente'')], w')
               else (Inr [TextContent ''text''
                           (cross_mark @ '' Error al eliminar el registro '' @ py_str E model
                            @ ''/'' @ py_str E record_id)], w'))))"

text \<open>The loop over the first 15 items of the field dictionary.\<close>

fun fields_lines :: "env \<Rightarrow> (string \<times> pyval) list \<Rightarrow> exn + string" where
  "fields_lines E [] = Inr []"
| "fields_lines E ((field_name, field_info) # rest) =
     (case py_get field_info ''type'' (PStr ''unknown'') of
        Inl e \<Rightarrow> Inl e
      | Inr field_type \<Rightarrow>
     (case py_get field_info ''required'' (PBool False) of
        Inl e \<Rightarrow> Inl e
      | Inr req \<Rightarrow>
     (case py_get field_info ''help'' PNone of
        Inl e \<Rightarrow> Inl e
      | Inr h \<Rightarrow>
     (case (if truthy h
            then (case py_getitem field_info ''help'' of
                    Inl e \<Rightarrow> Inl e
                  | Inr h' \<Rightarrow>
                      (case py_prefix 50 h' of
                         Inl e \<Rightarrow> Inl e
                       | Inr p \<Rightarrow>
                           Inr (''    '' @ right_arrow @ '' '' @ py_str E p @ ''...\<newline>'')))
            else Inr []) of
        Inl e \<Rightarrow> Inl e
      | Inr help_line \<Rightarrow>
          (case fields_lines E rest of
             Inl e \<Rightarrow> Inl e
           | Inr below \<Rightarrow>
               Inr (''  '' @ bullet @ '' '' @ field_name @ '' ('' @ py_str E field_type @ '') ''
                    @ (if truthy req then warning_sign else []) @ ''\<newline>''
                    @ help_line @ below))))))"

definition tool_get_model_fields ::
  "env \<Rightarrow> OdooClient \<Rightarrow> world \<Rightarrow> (string \<times> pyval) list \<Rightarrow> (exn + TextContent list) \<times> world" where
  "tool_get_model_fields E c w arguments =
     (case py_getitem (PDict arguments) ''model'' of
        Inl e \<Rightarrow> (Inl e, w)
      | Inr model \<Rightarrow>
          (case get_fields E c w model of
             (Inl e, w') \<Rightarrow> (Inl e, w')
           | (Inr field_defs, w') \<Rightarrow>
               (case py_items field_defs of
                  Inl e \<Rightarrow> (Inl e, w')
                | Inr items \<Rightarrow>
                    (case fields_lines E (take 15 items) of
                       Inl e \<Rightarrow> (Inl e, w')
                     | Inr body \<Rightarrow>
                         (Inr [TextContent ''text''
                                (bar_chart @ '' Campos del modelo '' @ py_str E model
                                 @ '':\<newline>'' @ body)], w')))))"

subsection \<open>Dispatch\<close>

text \<open>The \<^verbatim>\<open>if\<close>/\<^verbatim>\<open>elif\<close> chain of \<^verbatim>\<open>call_tool\<close> that follows the connection check,
  run on the connected client.\<close>

definition run_tool ::
  "env \<Rightarrow> OdooClient \<Rightarrow> world \<Rightarrow> string \<Rightarrow> (string \<times> pyval) list
     \<Rightarrow> (exn + TextContent list) \<times> world" where
  "run_tool E c w name arguments =
     (if name = ''list_models'' then tool_list_models E c w
      else if name = ''search_records'' then tool_search_records E c w arguments
      else if name = ''read_record'' then tool_read_record E c w arguments
      else if name = ''create_record'' then tool_create_record E c w arguments
      else if name = ''update_record'' then tool_update_record E c w arguments
      else if name = ''delete_record'' then tool_delete_record E c w arguments
      else if name = ''get_model_fields'' then tool_get_model_fields E c w arguments
      else (Inr [TextContent ''text'' (unknown_tool_msg name)], w))"

text \<open>The connection check \<^verbatim>\<open>not odoo_client or not odoo_client.uid\<close>: \<open>live_client g\<close>
  is the client when the check finds a session, \<open>None\<close> when it does not.\<close>

definition live_client :: "OdooClient option \<Rightarrow> OdooClient option" where
  "live_client g =
     (case g of None \<Rightarrow> None | Some c \<Rightarrow> if truthy (uid c) then Some c else None)"

text \<open>The body of the \<^verbatim>\<open>try\<close> block of \<^verbatim>\<open>call_tool\<close>: what it returns or raises, the global
  \<^verbatim>\<open>odoo_client\<close> and the world afterwards.\<close>

definition call_tool_body ::
  "env \<Rightarrow> OdooClient option \<Rightarrow> world \<Rightarrow> string \<Rightarrow> (string \<times> pyval) list
     \<Rightarrow> (exn + TextContent list) \<times> OdooClient option \<times> world" where
  "call_tool_body E g w name arguments =
     (if name = ''connect_odoo'' then
        (case initialize_odoo E g w of
           (Inl e, g', w') \<Rightarrow> (Inl e, g', w')
         | (Inr success, g', w') \<Rightarrow>
             (Inr [TextContent ''text'' (if success then connected_msg else connect_failed_msg)],
              g', w'))
      else
        (case live_client g of
           Some c \<Rightarrow> (case run_tool E c w name arguments of (r, w') \<Rightarrow> (r, g, w'))
         | None \<Rightarrow>
             (case initialize_odoo E g w of
                (Inl e, g', w') \<Rightarrow> (Inl e, g', w')
              | (Inr success, g', w') \<Rightarrow>
                  (case live_client g' of
                     None \<Rightarrow> (Inr [TextContent ''text'' no_connection_msg], g', w')
                   | Some c \<Rightarrow>
                       (case run_tool E c w' name arguments of (r, w'') \<Rightarrow> (r, g', w''))))))"

text \<open>\<^verbatim>\<open>call_tool\<close>: the \<^verbatim>\<open>try\<close> block with its \<^verbatim>\<open>except Exception\<close> handler.\<close>

definition call_tool ::
  "env \<Rightarrow> OdooClient option \<Rightarrow> world \<Rightarrow> string \<Rightarrow> (string \<times> pyval) list
     \<Rightarrow> TextContent list \<times> OdooClient option \<times> world" where
  "call_tool E g w name arguments =
     (case call_tool_body E g w name arguments of
        (Inl e, g', w') \<Rightarrow> ([TextContent ''text'' (error_msg E e)], g', w')
      | (Inr r, g', w') \<Rightarrow> (r, g', w'))"

section \<open>Notions the properties are stated with\<close>

text \<open>The proxy calls the client makes.\<close>

definition authenticate_call :: "OdooClient \<Rightarrow> rpc" where
  "authenticate_call c = Authenticate (common c) (db c) (username c) (password c) (PDict [])"

definition data_call ::
  "OdooClient \<Rightarrow> pyval \<Rightarrow> string \<Rightarrow> pyval list \<Rightarrow> (string \<times> pyval) list option \<Rightarrow> rpc" where
  "data_call c model method args kwargs =
     ExecuteKw (models_endpoint c) (db c) (uid c) (password c) model method args kwargs"

text \<open>The one call \<^verbatim>\<open>list_models\<close> makes.\<close>

definition models_call :: "OdooClient \<Rightarrow> rpc" where
  "models_call c =
     data_call c (PStr ''ir.model'') ''search_read'' [PList []]
       (Some [(''limit'', PInt 500), (''fields'', PList [PStr ''model'', PStr ''name''])])"

fun is_data_call :: "rpc \<Rightarrow> bool" where
  "is_data_call (ExecuteKw ep d u p model method args kwargs) = True"
| "is_data_call r = False"

text \<open>A record, as \<^verbatim>\<open>read\<close> returns it, contains the submitted values: every submitted
  key is there with the submitted value.\<close>

fun contains_values :: "pyval \<Rightarrow> pyval \<Rightarrow> bool" where
  "contains_values (PDict r) (PDict vals) = list_all (\<lambda>kv. map_of r (fst kv) = Some (snd kv)) vals"
| "contains_values r vals = False"

text \<open>The outcome of a \<^verbatim>\<open>read\<close> on one identifier is one record that contains the
  submitted values.\<close>

fun reads_back :: "exn + pyval \<Rightarrow> pyval \<Rightarrow> bool" where
  "reads_back (Inr (PList [r])) vals = contains_values r vals"
| "reads_back reply vals = False"

text \<open>The answer of \<^verbatim>\<open>call_tool\<close> is one text item.\<close>

definition single_text :: "TextContent list \<Rightarrow> bool" where
  "single_text r = (\<exists>t. r = [TextContent ''text'' t])"

text \<open>The names the catalog advertises.\<close>

definition tool_names :: "string list" where
  "tool_names = [''connect_odoo'', ''list_models'', ''search_records'', ''read_record'',
                 ''create_record'', ''update_record'', ''delete_record'', ''get_model_fields'']"

text \<open>
  The connection check that \<^verbatim>\<open>call_tool\<close> makes for every tool but \<^verbatim>\<open>connect_odoo\<close>, on
  its own: the client the tool is run on, with the global and the world at that
  point, when there is a session or the automatic \<^verbatim>\<open>initialize_odoo\<close> returns with
  one; \<open>None\<close> when the tool is not reached.
\<close>

definition ensure_session ::
  "env \<Rightarrow> OdooClient option \<Rightarrow> world \<Rightarrow> (OdooClient \<times> OdooClient option \<times> world) option" where
  "ensure_session E g w =
     (case live_client g of
        Some c \<Rightarrow> Some (c, g, w)
      | None \<Rightarrow>
          (case initialize_odoo E g w of
             (Inl e, g', w') \<Rightarrow> None
           | (Inr success, g', w') \<Rightarrow>
               (case live_client g' of None \<Rightarrow> None | Some c \<Rightarrow> Some (c, g', w'))))"

text \<open>A reply holds at most \<open>n\<close> entries: it is a list no longer than \<open>n\<close>, or the
  call raised and nothing is returned.\<close>

fun answers_at_most :: "nat \<Rightarrow> exn + pyval \<Rightarrow> bool" where
  "answers_at_most n (Inr (PList xs)) = (length xs \<le> n)"
| "answers_at_most n (Inr v) = False"
| "answers_at_most n (Inl e) = True"

text \<open>The limit passed to a \<^verbatim>\<open>search\<close> call bounds the length of the list the server
  answers: whenever the keyword dictionary of the call carries the limit \<open>n\<close>, the
  answer holds at most \<open>n\<close> entries.\<close>

definition keeps_limit :: "env \<Rightarrow> bool" where
  "keeps_limit E \<longleftrightarrow>
     (\<forall>w ep d u p model args kw n.
        map_of kw ''limit'' = Some (PInt n) \<longrightarrow>
        answers_at_most (nat n) (remote E w (ExecuteKw ep d u p model ''search'' args (Some kw))))"

section \<open>Sample runtimes and servers\<close>

text \<open>
  Concrete environments for the closed instances of the theorems. The sample runtime
  renders a string as it is, an integer in decimal and any other value by a
  placeholder; the properties below hold for every runtime.
\<close>

function decimal :: "nat \<Rightarrow> string" where
  "decimal n = (if n < 10 then [char_of (48 + n)] else decimal (n div 10) @ [char_of (48 + n mod 10)])"
  by pat_completeness auto
termination
  by (relation "measure id") auto

declare decimal.simps [simp del]

fun sample_str :: "pyval \<Rightarrow> string" where
  "sample_str PNone = ''None''"
| "sample_str (PBool b) = (if b then ''True'' else ''False'')"
| "sample_str (PInt i) = (if i < 0 then ''-'' @ decimal (nat (- i)) else decimal (nat i))"
| "sample_str (PStr s) = s"
| "sample_str (PList xs) = ''[...]''"
| "sample_str (PDict kvs) = ''{...}''"
| "sample_str (PObject t b) = ''<'' @ t @ ''>''"

fun sample_repr :: "pyval \<Rightarrow> string" where
  "sample_repr (PStr s) = quoted s"
| "sample_repr v = sample_str v"

fun sample_dumps :: "pyval \<Rightarrow> exn + string" where
  "sample_dumps (PObject t b) = Inl (TypeError (''Object of type '' @ t @ '' is not JSON serializable''))"
| "sample_dumps v = Inr (sample_str v)"

definition sample_config :: pyval where
  "sample_config =
     PDict [(''odoo'', PDict [(''url'', PStr ''http://localhost:8069''),
                              (''database'', PStr ''demo''),
                              (''username'', PStr ''admin''),
                              (''password'', PStr ''admin'')]),
            (''mcp'', PDict [(''name'', PStr ''odoo-mcp-simple''), (''version'', PStr ''1.0.0'')])]"

definition wrong_password_config :: pyval where
  "wrong_password_config =
     PDict [(''odoo'', PDict [(''url'', PStr ''http://localhost:8069''),
                              (''database'', PStr ''demo''),
                              (''username'', PStr ''admin''),
                              (''password'', PStr ''guess'')]),
            (''mcp'', PDict [(''name'', PStr ''odoo-mcp-simple''), (''version'', PStr ''1.0.0'')])]"

text \<open>
  A small record store as the server. It accepts the user \<^verbatim>\<open>admin\<close>/\<^verbatim>\<open>admin\<close> with the
  session identifier 2; \<^verbatim>\<open>create\<close> numbers the records from 1 in the order of the
  \<^verbatim>\<open>create\<close> calls made so far, \<^verbatim>\<open>read\<close>, \<^verbatim>\<open>search\<close> and \<^verbatim>\<open>search_read\<close> answer from
  them and honour \<^verbatim>\<open>fields\<close> and \<^verbatim>\<open>limit\<close>.
\<close>

fun created :: "world \<Rightarrow> (pyval \<times> (string \<times> pyval) list) list" where
  "created [] = []"
| "created (ExecuteKw ep d u p model method [PDict vals] kwargs # h) =
     (if method = ''create'' then (model, vals) # created h else created h)"
| "created (r # h) = created h"

definition stored :: "world \<Rightarrow> pyval \<Rightarrow> (int \<times> (string \<times> pyval) list) list" where
  "stored h model =
     map (\<lambda>(i, mv). (int (Suc i), snd mv))
       (filter (\<lambda>(i, mv). fst mv = model) (enumerate 0 (created h)))"

definition shown :: "(string \<times> pyval) list option \<Rightarrow> int \<times> (string \<times> pyval) list \<Rightarrow> pyval" where
  "shown kwargs rec =
     PDict ((''id'', PInt (fst rec)) #
            (case map_option (\<lambda>kw. map_of kw ''fields'') kwargs of
               Some (Some (PList fs)) \<Rightarrow> filter (\<lambda>kv. PStr (fst kv) \<in> set fs) (snd rec)
             | _ \<Rightarrow> snd rec))"

definition limited :: "(string \<times> pyval) list option \<Rightarrow> 'a list \<Rightarrow> 'a list" where
  "limited kwargs xs =
     (case map_option (\<lambda>kw. map_of kw ''limit'') kwargs of
        Some (Some (PInt n)) \<Rightarrow> take (nat n) xs
      | _ \<Rightarrow> xs)"

definition unsupported :: "exn + pyval" where
  "unsupported = Inl (OtherError ''Fault'' ''unsupported call'')"

fun store_remote :: "world \<Rightarrow> rpc \<Rightarrow> exn + pyval" where
  "store_remote h (Authenticate ep d usr pw opts) =
     Inr (if usr = PStr ''admin'' \<and> pw = PStr ''admin'' then PInt 2 else PBool False)"
| "store_remote h (Version ep) = Inr (PDict [(''server_serie'', PStr ''18.0'')])"
| "store_remote h (ExecuteKw ep d u p model method args kwargs) =
     (if u \<noteq> PInt 2 then Inl (OtherError ''Fault'' ''Access Denied'')
      else if method = ''create'' then
        (case args of
           [PDict vals] \<Rightarrow> Inr (PInt (int (Suc (length (created h)))))
         | _ \<Rightarrow> unsupported)
      else if method = ''read'' then
        (case args of
           [PList ids] \<Rightarrow>
             Inr (PList (map (shown kwargs) (filter (\<lambda>rec. PInt (fst rec) \<in> set ids) (stored h model))))
         | _ \<Rightarrow> unsupported)
      else if method = ''search'' then
        Inr (PList (limited kwargs (map (\<lambda>rec. PInt (fst rec)) (stored h model))))
      else if method = ''search_read'' then
        Inr (PList (limited kwargs (map (shown kwargs) (stored h model))))
      else unsupported)"

definition sample_env :: env where
  "sample_env =
     \<lparr>py_str = sample_str, py_repr = sample_repr, json_dumps = sample_dumps,
      server_proxy = (\<lambda>uri. None), remote = store_remote, config = sample_config\<rparr>"

text \<open>A server that cannot be reached: every proxy call raises.\<close>

definition unreachable_remote :: "world \<Rightarrow> rpc \<Rightarrow> exn + pyval" where
  "unreachable_remote h r = Inl (OtherError ''ConnectionRefusedError'' ''[Errno 111] Connection refused'')"



text \<open>A server with 250 records, numbered from 1, whose \<^verbatim>\<open>search\<close> keeps to the limit.\<close>

fun numbered_remote :: "world \<Rightarrow> rpc \<Rightarrow> exn + pyval" where
  "numbered_remote h (ExecuteKw ep d u p model method args kwargs) =
     (if method = ''search''
      then Inr (PList (limited kwargs (map (\<lambda>n. PInt (int n)) [1..<251])))
      else unsupported)"
| "numbered_remote h r = unsupported"

text \<open>A server that reads a relational field back as a pair of identifier and display
  name, whatever was submitted for it.\<close>

fun relational_remote :: "world \<Rightarrow> rpc \<Rightarrow> exn + pyval" where
  "relational_remote h (ExecuteKw ep d u p model method args kwargs) =
     (if method = ''create'' then Inr (PInt 7)
      else if method = ''read'' then
        Inr (PList [PDict [(''id'', PInt 7), (''partner_id'', PList [PInt 5, PStr ''Azure Interior''])]])
      else unsupported)"
| "relational_remote h r = unsupported"

text \<open>Clients as \<^verbatim>\<open>OdooClient.__init__\<close> builds them from the sample configuration: without
  a session, and after a successful \<^verbatim>\<open>connect\<close>.\<close>

definition fresh_client :: OdooClient where
  "fresh_client =
     \<lparr>url = PStr ''http://localhost:8069'', db = PStr ''demo'', username = PStr ''admin'',
      password = PStr ''admin'', uid = PNone, models = PNone,
      common = ''http://localhost:8069/xmlrpc/2/common'',
      models_endpoint = ''http://localhost:8069/xmlrpc/2/object''\<rparr>"

definition live_sample_client :: OdooClient where
  "live_sample_client = fresh_client\<lparr>uid := PInt 2\<rparr>"

text \<open>The sample runtime with a wrong password in the configuration, with the server
  that turns odd after an outage and with the numbered server; the clients
  \<^verbatim>\<open>initialize_odoo\<close> leaves behind.\<close>

definition rejecting_env :: env where
  "rejecting_env = sample_env\<lparr>config := wrong_password_config\<rparr>"


definition numbered_env :: env where
  "numbered_env = sample_env\<lparr>remote := numbered_remote\<rparr>"

definition guessing_client :: OdooClient where
  "guessing_client = fresh_client\<lparr>password := PStr ''guess''\<rparr>"

definition rejected_client :: OdooClient where
  "rejected_client = guessing_client\<lparr>uid := PBool False\<rparr>"


text \<open>Worlds in which the connected sample client has already created records.\<close>

definition ada :: pyval where
  "ada = PDict [(''name'', PStr ''Ada'')]"

definition sample_arguments :: "(string \<times> pyval) list" where
  "sample_arguments =
     [(''model'', PStr ''res.partner''), (''record_id'', PInt 1), (''values'', ada)]"

definition two_models :: world where
  "two_models =
     [data_call live_sample_client (PStr ''ir.model'') ''create''
        [PDict [(''model'', PStr ''res.partner''), (''name'', PStr ''Contact'')]] None,
      data_call live_sample_client (PStr ''ir.model'') ''create''
        [PDict [(''model'', PStr ''sale.order''), (''name'', PStr ''Sales Order'')]] None]"

section \<open>The client methods, call by call\<close>

lemma search_live:
  "truthy (uid c) \<Longrightarrow> search E c w model domain lim =
     (let r = data_call c model ''search''
                [if truthy (dflt PNone domain) then dflt PNone domain else PList []]
                (Some [(''limit'', dflt (PInt 100) lim)])
      in (remote E w r, w @ [r]))"
  by (simp add: search_def execute_kw_def call_remote_def data_call_def Let_def)

lemma read_live:
  "truthy (uid c) \<Longrightarrow> read E c w model ids flds =
     (let r = data_call c model ''read'' [ids]
                (Some (if truthy (dflt PNone flds) then [(''fields'', dflt PNone flds)] else []))
      in (remote E w r, w @ [r]))"
  by (simp add: read_def execute_kw_def call_remote_def data_call_def Let_def)

lemma search_read_live:
  "truthy (uid c) \<Longrightarrow> search_read E c w model domain flds lim =
     (let r = data_call c model ''search_read''
                [if truthy (dflt PNone domain) then dflt PNone domain else PList []]
                (Some ((''limit'', dflt (PInt 100) lim) #
                       (if truthy (dflt PNone flds) then [(''fields'', dflt PNone flds)] else [])))
      in (remote E w r, w @ [r]))"
  by (simp add: search_read_def execute_kw_def call_remote_def data_call_def Let_def)

lemma create_live:
  "truthy (uid c) \<Longrightarrow> create E c w model vals =
     (let r = data_call c model ''create'' [vals] None in (remote E w r, w @ [r]))"
  by (simp add: create_def execute_kw_def call_remote_def data_call_def Let_def)

lemma update_live:
  "truthy (uid c) \<Longrightarrow> update E c w model ids vals =
     (let r = data_call c model ''write'' [ids, vals] None in (remote E w r, w @ [r]))"
  by (simp add: update_def execute_kw_def call_remote_def data_call_def Let_def)

lemma delete_live:
  "truthy (uid c) \<Longrightarrow> delete E c w model ids =
     (let r = data_call c model ''unlink'' [ids] None in (remote E w r, w @ [r]))"
  by (simp add: delete_def execute_kw_def call_remote_def data_call_def Let_def)

lemma get_fields_live:
  "truthy (uid c) \<Longrightarrow> get_fields E c w model =
     (let r = data_call c model ''fields_get'' []
                (Some [(''attributes'',
                        PList [PStr ''string'', PStr ''help'', PStr ''type'', PStr ''required''])])
      in (remote E w r, w @ [r]))"
  by (simp add: get_fields_def execute_kw_def call_remote_def data_call_def Let_def)

lemma list_models_live:
  "truthy (uid c) \<Longrightarrow> list_models E c w =
     (case remote E w (models_call c) of
        Inl e \<Rightarrow> (Inl e, w @ [models_call c])
      | Inr ms \<Rightarrow>
          (case py_iter ms of
             Inl e \<Rightarrow> (Inl e, w @ [models_call c])
           | Inr xs \<Rightarrow> (collect model_entry xs, w @ [models_call c])))"
  by (simp add: list_models_def search_read_live dflt_def models_call_def Let_def split: sum.splits)

lemma list_models_world:
  "truthy (uid c) \<Longrightarrow> snd (list_models E c w) = w @ [models_call c]"
  by (simp add: list_models_live split: sum.splits)

lemma no_session_raises:
  assumes "\<not> truthy (uid c)"
  shows "search E c w model domain lim = (Inl not_connected, w)"
    and "read E c w model ids flds = (Inl not_connected, w)"
    and "search_read E c w model domain flds lim = (Inl not_connected, w)"
    and "create E c w model vals = (Inl not_connected, w)"
    and "update E c w model ids vals = (Inl not_connected, w)"
    and "delete E c w model ids = (Inl not_connected, w)"
    and "get_fields E c w model = (Inl not_connected, w)"
    and "list_models E c w = (Inl not_connected, w)"
  using assms
  by (simp_all add: search_def read_def search_read_def create_def update_def delete_def
      get_fields_def list_models_def Let_def)

lemma live_sample: "truthy (uid live_sample_client)"
  by (simp add: live_sample_client_def fresh_client_def)

lemma live_sample_fields:
  "uid live_sample_client = PInt 2" "db live_sample_client = PStr ''demo''"
  "password live_sample_client = PStr ''admin''"
  by (simp_all add: live_sample_client_def fresh_client_def)

lemma collect_length: "collect f xs = Inr ys \<Longrightarrow> length ys = length xs"
  by (induction xs arbitrary: ys) (auto split: sum.splits)

lemma model_entry_shape:
  "model_entry m = Inr d \<Longrightarrow> \<exists>a b. d = PDict [(''model'', a), (''name'', b)]"
  by (auto simp add: model_entry_def split: sum.splits)

lemma collect_model_entry_lines:
  "collect model_entry xs = Inr ys \<Longrightarrow> \<exists>body. models_lines E (take n ys) = Inr body"
proof (induction xs arbitrary: ys n)
  case Nil
  then show ?case by simp
next
  case (Cons x xs)
  from Cons.prems obtain d ds where d: "model_entry x = Inr d" and ds: "collect model_entry xs = Inr ds"
    and ys: "ys = d # ds"
    by (auto split: sum.splits)
  from model_entry_shape [OF d] obtain a b where dd: "d = PDict [(''model'', a), (''name'', b)]"
    by blast
  show ?case
  proof (cases n)
    case 0
    then show ?thesis by simp
  next
    case (Suc k)
    from Cons.IH [OF ds, of k] obtain body where "models_lines E (take k ds) = Inr body"
      by blast
    then show ?thesis by (simp add: ys Suc dd)
  qed
qed

subsection \<open>The sample store at work\<close>

lemma stored_two_models:
  "stored two_models (PStr ''ir.model'') =
     [(1, [(''model'', PStr ''res.partner''), (''name'', PStr ''Contact'')]),
      (2, [(''model'', PStr ''sale.order''), (''name'', PStr ''Sales Order'')])]"
  by (simp add: stored_def two_models_def data_call_def)

lemma reply_two_models:
  "remote sample_env two_models (models_call live_sample_client) =
     Inr (PList [PDict [(''id'', PInt 1), (''model'', PStr ''res.partner''), (''name'', PStr ''Contact'')],
                 PDict [(''id'', PInt 2), (''model'', PStr ''sale.order''), (''name'', PStr ''Sales Order'')]])"
  by (simp add: sample_env_def models_call_def data_call_def live_sample_fields
      stored_two_models limited_def shown_def)

lemma reply_create_ada:
  "remote sample_env [] (data_call live_sample_client (PStr ''res.partner'') ''create'' [ada] None)
     = Inr (PInt 1)"
  by (simp add: sample_env_def data_call_def live_sample_fields ada_def)

lemma stored_ada:
  "stored [data_call live_sample_client (PStr ''res.partner'') ''create'' [ada] None] (PStr ''res.partner'')
     = [(1, [(''name'', PStr ''Ada'')])]"
  by (simp add: stored_def data_call_def ada_def)

lemma reply_read_ada:
  "remote sample_env [data_call live_sample_client (PStr ''res.partner'') ''create'' [ada] None]
     (data_call live_sample_client (PStr ''res.partner'') ''read'' [PList [PInt 1]] (Some []))
     = Inr (PList [PDict [(''id'', PInt 1), (''name'', PStr ''Ada'')]])"
  by (simp add: sample_env_def stored_ada shown_def data_call_def [of _ _ "''read''"]
      live_sample_fields)

section \<open>Properties of the client\<close>

text \<open>
  Claim C3. Each of the eight wrappers \<^verbatim>\<open>search\<close>, \<^verbatim>\<open>read\<close>, \<^verbatim>\<open>search_read\<close>, \<^verbatim>\<open>create\<close>,
  \<^verbatim>\<open>update\<close>, \<^verbatim>\<open>delete\<close>, \<^verbatim>\<open>get_fields\<close> and \<^verbatim>\<open>list_models\<close> raises
  \<^verbatim>\<open>Exception("No conectado a Odoo")\<close> at once and leaves the call log as it was when the
  session identifier is absent (\<^verbatim>\<open>None\<close>, \<^verbatim>\<open>False\<close> or any other false value); with a
  session identifier it adds exactly one call to the log.
\<close>

theorem crud_wrappers_need_session:
  "(\<not> truthy (uid c) \<longrightarrow>
      search E c w model domain lim = (Inl not_connected, w)
    \<and> read E c w model ids flds = (Inl not_connected, w)
    \<and> search_read E c w model domain flds lim = (Inl not_connected, w)
    \<and> create E c w model vals = (Inl not_connected, w)
    \<and> update E c w model ids vals = (Inl not_connected, w)
    \<and> delete E c w model ids = (Inl not_connected, w)
    \<and> get_fields E c w model = (Inl not_connected, w)
    \<and> list_models E c w = (Inl not_connected, w))
   \<and> (truthy (uid c) \<longrightarrow>
      (\<exists>r. snd (search E c w model domain lim) = w @ [r])
    \<and> (\<exists>r. snd (read E c w model ids flds) = w @ [r])
    \<and> (\<exists>r. snd (search_read E c w model domain flds lim) = w @ [r])
    \<and> (\<exists>r. snd (create E c w model vals) = w @ [r])
    \<and> (\<exists>r. snd (update E c w model ids vals) = w @ [r])
    \<and> (\<exists>r. snd (delete E c w model ids) = w @ [r])
    \<and> (\<exists>r. snd (get_fields E c w model) = w @ [r])
    \<and> (\<exists>r. snd (list_models E c w) = w @ [r]))"
  by (simp add: no_session_raises search_live read_live search_read_live create_live update_live
      delete_live get_fields_live list_models_world Let_def)

theorem crud_wrappers_need_session_witness:
  "search sample_env fresh_client [] (PStr ''res.partner'') None None = (Inl not_connected, [])
   \<and> list_models sample_env fresh_client [] = (Inl not_connected, [])
   \<and> (\<exists>r. snd (create sample_env live_sample_client [] (PStr ''res.partner'')
                 (PDict [(''name'', PStr ''Ada'')])) = [r])
   \<and> (\<exists>r. snd (list_models sample_env live_sample_client []) = [r])"
proof -
  have absent: "\<not> truthy (uid fresh_client)"
    by (simp add: fresh_client_def)
  show ?thesis
    using absent live_sample
      crud_wrappers_need_session [where E = sample_env and c = fresh_client and w = "[]"
        and model = "PStr ''res.partner''" and domain = None and lim = None and flds = None
        and ids = "PList []" and vals = "PDict []"]
      crud_wrappers_need_session [where E = sample_env and c = live_sample_client and w = "[]"
        and model = "PStr ''res.partner''" and vals = "PDict [(''name'', PStr ''Ada'')]"
        and domain = None and lim = None and flds = None and ids = "PList []"]
    by simp
qed

text \<open>
  Claim C4. \<^verbatim>\<open>connect\<close> returns \<^verbatim>\<open>True\<close> exactly when the remote \<^verbatim>\<open>authenticate\<close> answers
  a value other than \<^verbatim>\<open>False\<close>; when the remote answers \<^verbatim>\<open>False\<close> or the call raises,
  \<^verbatim>\<open>connect\<close> returns \<^verbatim>\<open>False\<close> and raises nothing; in every case it makes that one
  call and no other, so nothing is retried.
\<close>

theorem connect_true_iff_session:
  "(fst (connect E c w) \<longleftrightarrow> (\<exists>v. remote E w (authenticate_call c) = Inr v \<and> v \<noteq> PBool False))
   \<and> (remote E w (authenticate_call c) = Inr (PBool False) \<longrightarrow> \<not> fst (connect E c w))
   \<and> (\<forall>e. remote E w (authenticate_call c) = Inl e \<longrightarrow> \<not> fst (connect E c w))
   \<and> snd (snd (connect E c w)) = w @ [authenticate_call c]"
  by (auto simp add: connect_def call_remote_def authenticate_call_def split: sum.splits)

theorem connect_true_iff_session_witness:
  "fst (connect sample_env fresh_client [])
   \<and> \<not> fst (connect sample_env (fresh_client\<lparr>password := PStr ''guess''\<rparr>) [])
   \<and> \<not> fst (connect (sample_env\<lparr>remote := unreachable_remote\<rparr>) fresh_client [])"
  using connect_true_iff_session [where E = sample_env and w = "[]" and c = fresh_client]
    connect_true_iff_session [where E = sample_env and w = "[]"
      and c = "fresh_client\<lparr>password := PStr ''guess''\<rparr>"]
    connect_true_iff_session [where E = "sample_env\<lparr>remote := unreachable_remote\<rparr>" and w = "[]"
      and c = fresh_client]
  by (simp add: sample_env_def fresh_client_def authenticate_call_def unreachable_remote_def)

text \<open>
  Claim C9. In \<^verbatim>\<open>read\<close> and \<^verbatim>\<open>search_read\<close> an empty field list does what no field list
  does: the call sent to the server carries no \<^verbatim>\<open>fields\<close> key. This is also the call
  the \<^verbatim>\<open>read_record\<close> tool makes when its arguments name no fields, its default being
  the empty list.
\<close>

theorem empty_fields_is_no_fields:
  "read E c w model ids (Some (PList [])) = read E c w model ids None
   \<and> search_read E c w model domain (Some (PList [])) lim = search_read E c w model domain None lim
   \<and> (truthy (uid c) \<longrightarrow>
        snd (read E c w model ids (Some (PList []))) = w @ [data_call c model ''read'' [ids] (Some [])]
      \<and> snd (search_read E c w model (Some (PList [])) (Some (PList [])) (Some lim'))
          = w @ [data_call c model ''search_read'' [PList []] (Some [(''limit'', lim')])])
   \<and> (truthy (uid c) \<longrightarrow> map_of arguments ''model'' = Some model \<longrightarrow>
        map_of arguments ''record_id'' = Some record_id \<longrightarrow> map_of arguments ''fields'' = None \<longrightarrow>
        snd (tool_read_record E c w arguments)
          = w @ [data_call c model ''read'' [PList [record_id]] (Some [])])"
proof (intro conjI impI)
  show "read E c w model ids (Some (PList [])) = read E c w model ids None"
    by (simp add: read_def dflt_def Let_def)
  show "search_read E c w model domain (Some (PList [])) lim = search_read E c w model domain None lim"
    by (simp add: search_read_def dflt_def Let_def)
next
  assume "truthy (uid c)"
  then show "snd (read E c w model ids (Some (PList []))) = w @ [data_call c model ''read'' [ids] (Some [])]"
    by (simp add: read_live dflt_def Let_def)
next
  assume "truthy (uid c)"
  then show "snd (search_read E c w model (Some (PList [])) (Some (PList [])) (Some lim'))
          = w @ [data_call c model ''search_read'' [PList []] (Some [(''limit'', lim')])]"
    by (simp add: search_read_live dflt_def Let_def)
next
  assume "truthy (uid c)" "map_of arguments ''model'' = Some model"
    "map_of arguments ''record_id'' = Some record_id" "map_of arguments ''fields'' = None"
  then show "snd (tool_read_record E c w arguments)
          = w @ [data_call c model ''read'' [PList [record_id]] (Some [])]"
    by (simp add: tool_read_record_def args_get_def read_live dflt_def Let_def split: sum.splits)
qed

theorem empty_fields_is_no_fields_witness:
  "snd (read sample_env live_sample_client [] (PStr ''res.partner'') (PList [PInt 1]) (Some (PList [])))
     = [data_call live_sample_client (PStr ''res.partner'') ''read'' [PList [PInt 1]] (Some [])]
   \<and> snd (tool_read_record sample_env live_sample_client []
            [(''model'', PStr ''res.partner''), (''record_id'', PInt 1)])
     = [data_call live_sample_client (PStr ''res.partner'') ''read'' [PList [PInt 1]] (Some [])]"
  using live_sample empty_fields_is_no_fields [where E = sample_env and c = live_sample_client
      and w = "[]" and model = "PStr ''res.partner''" and ids = "PList [PInt 1]"
      and record_id = "PInt 1" and domain = None and lim = None and lim' = "PInt 10"
      and arguments = "[(''model'', PStr ''res.partner''), (''record_id'', PInt 1)]"]
  by auto

text \<open>
  Claim C10. When the remote \<^verbatim>\<open>authenticate\<close> raises inside \<^verbatim>\<open>connect\<close>, \<^verbatim>\<open>connect\<close>
  returns \<^verbatim>\<open>False\<close> and the client is left exactly as it was, session identifier
  included: a client that passed the live-session check before the failed attempt
  passes it afterwards.
\<close>

theorem connect_failure_keeps_client:
  assumes "remote E w (authenticate_call c) = Inl e"
  shows "connect E c w = (False, c, w @ [authenticate_call c])
         \<and> live_client (Some (fst (snd (connect E c w)))) = live_client (Some c)"
  using assms by (simp add: connect_def call_remote_def authenticate_call_def)

theorem connect_failure_keeps_client_witness:
  "connect (sample_env\<lparr>remote := unreachable_remote\<rparr>) live_sample_client []
     = (False, live_sample_client, [authenticate_call live_sample_client])
   \<and> live_client (Some (fst (snd (connect (sample_env\<lparr>remote := unreachable_remote\<rparr>)
                                       live_sample_client []))))
     = Some live_sample_client"
  using connect_failure_keeps_client [where E = "sample_env\<lparr>remote := unreachable_remote\<rparr>"
      and w = "[]" and c = live_sample_client]
  by (simp add: unreachable_remote_def live_client_def live_sample_client_def fresh_client_def)

lemma keeps_limitD:
  "keeps_limit E \<Longrightarrow> map_of kw ''limit'' = Some (PInt n) \<Longrightarrow>
   answers_at_most (nat n) (remote E w (ExecuteKw ep d u p model ''search'' args (Some kw)))"
  unfolding keeps_limit_def by blast

lemma numbered_keeps_limit: "keeps_limit numbered_env"
  by (simp add: keeps_limit_def numbered_env_def limited_def)

lemma reply_numbered:
  "remote numbered_env w
     (data_call c model ''search'' [PList []] (Some [(''limit'', PInt 100)]))
     = Inr (PList (map (\<lambda>n. PInt (int n)) [1..<101]))"
  by (simp add: numbered_env_def data_call_def limited_def take_map)

text \<open>
  Claim C5. \<^verbatim>\<open>search\<close> with an empty domain filter (omitted or \<^verbatim>\<open>[]\<close>) and the default
  limit makes one call, a \<^verbatim>\<open>search\<close> with the domain \<^verbatim>\<open>[]\<close> and the limit 100, and
  returns the server's answer to it as it is. So, the limit passed to the remote call
  bounding the length of the list the server answers, \<^verbatim>\<open>search\<close> returns at most 100
  identifiers.
\<close>

theorem search_default_limit:
  assumes "truthy (uid c)" and "domain = None \<or> domain = Some (PList [])"
  shows "search E c w model domain None
           = (remote E w (data_call c model ''search'' [PList []] (Some [(''limit'', PInt 100)])),
              w @ [data_call c model ''search'' [PList []] (Some [(''limit'', PInt 100)])])
         \<and> (keeps_limit E \<longrightarrow> answers_at_most 100 (fst (search E c w model domain None)))"
proof (intro conjI impI)
  show eq: "search E c w model domain None
           = (remote E w (data_call c model ''search'' [PList []] (Some [(''limit'', PInt 100)])),
              w @ [data_call c model ''search'' [PList []] (Some [(''limit'', PInt 100)])])"
    using assms by (auto simp add: search_live dflt_def Let_def)
  assume "keeps_limit E"
  from keeps_limitD [OF this, where kw = "[(''limit'', PInt 100)]" and n = 100]
  have "answers_at_most 100
      (remote E w (ExecuteKw (models_endpoint c) (db c) (uid c) (password c) model ''search''
         [PList []] (Some [(''limit'', PInt 100)])))"
    by simp
  then show "answers_at_most 100 (fst (search E c w model domain None))"
    by (simp add: eq data_call_def)
qed

theorem search_default_limit_witness:
  "search numbered_env live_sample_client [] (PStr ''res.partner'') (Some (PList [])) None
     = (Inr (PList (map (\<lambda>n. PInt (int n)) [1..<101])),
        [data_call live_sample_client (PStr ''res.partner'') ''search'' [PList []]
           (Some [(''limit'', PInt 100)])])
   \<and> answers_at_most 100
        (fst (search numbered_env live_sample_client [] (PStr ''res.partner'') (Some (PList [])) None))"
  using search_default_limit [OF live_sample, where domain = "Some (PList [])" and E = numbered_env
      and w = "[]" and model = "PStr ''res.partner''"]
    numbered_keeps_limit
  by (simp add: reply_numbered)

text \<open>
  Claim C7, as the code has it. \<^verbatim>\<open>create\<close> makes one call, a \<^verbatim>\<open>create\<close> with the
  submitted values, and returns the server's answer as the identifier. \<^verbatim>\<open>read\<close> on
  that identifier then makes one call, a \<^verbatim>\<open>read\<close> of that identifier with no \<^verbatim>\<open>fields\<close>
  key, and returns the server's answer as it is. So the record read back contains
  the submitted values exactly when the server's answer to that \<^verbatim>\<open>read\<close> does.
\<close>

theorem create_then_read_passes_through:
  assumes "truthy (uid c)"
  shows "create E c w model vals
           = (remote E w (data_call c model ''create'' [vals] None),
              w @ [data_call c model ''create'' [vals] None])
         \<and> read E c (snd (create E c w model vals)) model (PList [new_id]) None
           = (remote E (w @ [data_call c model ''create'' [vals] None])
                (data_call c model ''read'' [PList [new_id]] (Some [])),
              w @ [data_call c model ''create'' [vals] None,
                   data_call c model ''read'' [PList [new_id]] (Some [])])
         \<and> (fst (create E c w model vals) = Inr new_id \<longrightarrow>
              reads_back (fst (read E c (snd (create E c w model vals)) model (PList [new_id]) None)) vals
              = reads_back (remote E (w @ [data_call c model ''create'' [vals] None])
                              (data_call c model ''read'' [PList [new_id]] (Some []))) vals)"
  using assms by (simp add: create_live read_live Let_def dflt_def)

theorem create_then_read_passes_through_witness:
  "create sample_env live_sample_client [] (PStr ''res.partner'') ada
     = (Inr (PInt 1), [data_call live_sample_client (PStr ''res.partner'') ''create'' [ada] None])
   \<and> read sample_env live_sample_client
        (snd (create sample_env live_sample_client [] (PStr ''res.partner'') ada))
        (PStr ''res.partner'') (PList [PInt 1]) None
     = (Inr (PList [PDict [(''id'', PInt 1), (''name'', PStr ''Ada'')]]),
        [data_call live_sample_client (PStr ''res.partner'') ''create'' [ada] None,
         data_call live_sample_client (PStr ''res.partner'') ''read'' [PList [PInt 1]] (Some [])])
   \<and> reads_back (fst (read sample_env live_sample_client
        (snd (create sample_env live_sample_client [] (PStr ''res.partner'') ada))
        (PStr ''res.partner'') (PList [PInt 1]) None)) ada"
proof -
  have kept: "contains_values (PDict [(''id'', PInt 1), (''name'', PStr ''Ada'')]) ada"
    by (simp add: ada_def)
  have rd: "remote sample_env
       ([] @ [data_call live_sample_client (PStr ''res.partner'') ''create'' [ada] None])
       (data_call live_sample_client (PStr ''res.partner'') ''read'' [PList [PInt 1]] (Some []))
     = Inr (PList [PDict [(''id'', PInt 1), (''name'', PStr ''Ada'')]])"
    using reply_read_ada by simp
  from create_then_read_passes_through [OF live_sample, where E = sample_env and w = "[]"
      and model = "PStr ''res.partner''" and vals = ada and new_id = "PInt 1"]
    reply_create_ada rd kept
  show ?thesis by auto
qed

text \<open>
  Claim C7 as stated fails: against a server that reads a relational field back as a
  pair of identifier and display name, \<^verbatim>\<open>create\<close> with \<^verbatim>\<open>{'partner_id': 5}\<close> returns the
  identifier 7, and \<^verbatim>\<open>read\<close> on 7 returns a record whose \<^verbatim>\<open>partner_id\<close> is not 5.
\<close>

theorem create_then_read_counterexample:
  "fst (create (sample_env\<lparr>remote := relational_remote\<rparr>) live_sample_client []
          (PStr ''sale.order'') (PDict [(''partner_id'', PInt 5)])) = Inr (PInt 7)
   \<and> fst (read (sample_env\<lparr>remote := relational_remote\<rparr>) live_sample_client
            (snd (create (sample_env\<lparr>remote := relational_remote\<rparr>) live_sample_client []
                    (PStr ''sale.order'') (PDict [(''partner_id'', PInt 5)])))
            (PStr ''sale.order'') (PList [PInt 7]) None)
       = Inr (PList [PDict [(''id'', PInt 7),
                            (''partner_id'', PList [PInt 5, PStr ''Azure Interior''])]])
   \<and> \<not> contains_values
         (PDict [(''id'', PInt 7), (''partner_id'', PList [PInt 5, PStr ''Azure Interior''])])
         (PDict [(''partner_id'', PInt 5)])"
  by (simp add: create_live read_live live_sample data_call_def Let_def dflt_def)

text \<open>
  Claim C8. \<^verbatim>\<open>list_models\<close> makes one call, a \<^verbatim>\<open>search_read\<close> on \<^verbatim>\<open>ir.model\<close> with the
  limit 500. When the server keeps to that limit, \<^verbatim>\<open>list_models\<close> returns at most 500
  entries and the \<^verbatim>\<open>list_models\<close> tool, described in the catalog as listing all
  models, reports that count, however many models the server has.
\<close>

theorem list_models_asks_for_500:
  assumes "truthy (uid c)"
  shows "snd (list_models E c w)
           = w @ [data_call c (PStr ''ir.model'') ''search_read'' [PList []]
                    (Some [(''limit'', PInt 500), (''fields'', PList [PStr ''model'', PStr ''name''])])]
         \<and> (answers_at_most 500 (remote E w (models_call c)) \<longrightarrow>
              (\<forall>ms. fst (list_models E c w) = Inr ms \<longrightarrow>
                 length ms \<le> 500
               \<and> (\<exists>body. fst (tool_list_models E c w) =
                     Inr [TextContent ''text''
                           (clipboard @ '' Modelos disponibles:\<newline>'' @ body
                            @ ''\<newline>(Mostrando 20 de '' @ py_str E (PInt (int (length ms)))
                            @ '' modelos)'')])))
         \<and> Tool ''list_models'' ''Listar todos los modelos disponibles en Odoo'' (object_schema [] [])
             \<in> set list_tools"
proof (intro conjI impI allI)
  show "snd (list_models E c w)
           = w @ [data_call c (PStr ''ir.model'') ''search_read'' [PList []]
                    (Some [(''limit'', PInt 500), (''fields'', PList [PStr ''model'', PStr ''name''])])]"
    using assms by (simp add: list_models_world models_call_def)
next
  fix ms
  assume lim: "answers_at_most 500 (remote E w (models_call c))"
    and res: "fst (list_models E c w) = Inr ms"
  from res assms obtain v xs where v: "remote E w (models_call c) = Inr v"
    and xs: "py_iter v = Inr xs" and c: "collect model_entry xs = Inr ms"
    by (auto simp add: list_models_live split: sum.splits)
  from lim v obtain rs where rs: "v = PList rs" "length rs \<le> 500"
    by (cases v) auto
  with xs have "xs = rs" by simp
  with collect_length [OF c] rs show "length ms \<le> 500" by simp
  from collect_model_entry_lines [OF c, of E 20] obtain body
    where "models_lines E (take 20 ms) = Inr body" by blast
  with res show "\<exists>body. fst (tool_list_models E c w) =
                     Inr [TextContent ''text''
                           (clipboard @ '' Modelos disponibles:\<newline>'' @ body
                            @ ''\<newline>(Mostrando 20 de '' @ py_str E (PInt (int (length ms)))
                            @ '' modelos)'')]"
    by (auto simp add: tool_list_models_def split: prod.splits sum.splits)
next
  show "Tool ''list_models'' ''Listar todos los modelos disponibles en Odoo'' (object_schema [] [])
             \<in> set list_tools"
    by (simp add: list_tools_def)
qed

theorem list_models_asks_for_500_witness:
  "snd (list_models sample_env live_sample_client two_models)
     = two_models @ [models_call live_sample_client]
   \<and> fst (list_models sample_env live_sample_client two_models)
     = Inr [PDict [(''model'', PStr ''res.partner''), (''name'', PStr ''Contact'')],
            PDict [(''model'', PStr ''sale.order''), (''name'', PStr ''Sales Order'')]]
   \<and> (\<exists>body. fst (tool_list_models sample_env live_sample_client two_models) =
         Inr [TextContent ''text''
               (clipboard @ '' Modelos disponibles:\<newline>'' @ body
                @ ''\<newline>(Mostrando 20 de '' @ py_str sample_env (PInt 2) @ '' modelos)'')])"
proof -
  have res: "fst (list_models sample_env live_sample_client two_models)
     = Inr [PDict [(''model'', PStr ''res.partner''), (''name'', PStr ''Contact'')],
            PDict [(''model'', PStr ''sale.order''), (''name'', PStr ''Sales Order'')]]"
    by (simp add: list_models_live live_sample reply_two_models model_entry_def)
  have lim: "answers_at_most 500 (remote sample_env two_models (models_call live_sample_client))"
    by (simp add: reply_two_models)
  from list_models_asks_for_500 [OF live_sample, where E = sample_env and w = two_models] lim res
  show ?thesis
    by (simp add: models_call_def)
qed

section \<open>Properties of the dispatcher\<close>

lemma single_textI [simp]: "single_text [TextContent ''text'' t]"
  by (simp add: single_text_def)

lemma tool_list_models_single:
  "fst (tool_list_models E c w) = Inr r \<Longrightarrow> single_text r"
  by (auto simp add: tool_list_models_def split: prod.splits sum.splits)

lemma tool_search_records_single:
  "fst (tool_search_records E c w a) = Inr r \<Longrightarrow> single_text r"
  by (auto simp add: tool_search_records_def Let_def split: prod.splits sum.splits if_splits)

lemma tool_read_record_single:
  "fst (tool_read_record E c w a) = Inr r \<Longrightarrow> single_text r"
  by (auto simp add: tool_read_record_def Let_def split: prod.splits sum.splits if_splits)

lemma tool_create_record_single:
  "fst (tool_create_record E c w a) = Inr r \<Longrightarrow> single_text r"
  by (auto simp add: tool_create_record_def Let_def split: prod.splits sum.splits if_splits)

lemma tool_update_record_single:
  "fst (tool_update_record E c w a) = Inr r \<Longrightarrow> single_text r"
  by (auto simp add: tool_update_record_def Let_def split: prod.splits sum.splits if_splits)

lemma tool_delete_record_single:
  "fst (tool_delete_record E c w a) = Inr r \<Longrightarrow> single_text r"
  by (auto simp add: tool_delete_record_def Let_def split: prod.splits sum.splits if_splits)

lemma tool_get_model_fields_single:
  "fst (tool_get_model_fields E c w a) = Inr r \<Longrightarrow> single_text r"
  by (auto simp add: tool_get_model_fields_def Let_def split: prod.splits sum.splits if_splits)

lemma run_tool_single:
  "fst (run_tool E c w name a) = Inr r \<Longrightarrow> single_text r"
  by (auto simp add: run_tool_def tool_list_models_single tool_search_records_single
      tool_read_record_single tool_create_record_single tool_update_record_single
      tool_delete_record_single tool_get_model_fields_single split: if_splits)

lemma run_tool_single_pair:
  "run_tool E c w name a = (Inr r, w') \<Longrightarrow> single_text r"
  using run_tool_single [of E c w name a r] by simp

lemma call_tool_body_single:
  "fst (call_tool_body E g w name a) = Inr r \<Longrightarrow> single_text r"
  by (auto simp add: call_tool_body_def split: if_splits prod.splits sum.splits option.splits
      dest: run_tool_single_pair)

text \<open>
  Claim C1. Whatever the tool name and the arguments, \<^verbatim>\<open>call_tool\<close> returns one text
  item; when the body of its \<^verbatim>\<open>try\<close> block raises an exception (a failed connection,
  a missing session, a fault of the server, a missing argument), that text is the
  error message built from the exception, and nothing is raised to the caller.
\<close>

theorem call_tool_catches_everything:
  "(\<exists>t. fst (call_tool E g w name arguments) = [TextContent ''text'' t])
   \<and> (\<forall>e. fst (call_tool_body E g w name arguments) = Inl e \<longrightarrow>
          fst (call_tool E g w name arguments) = [TextContent ''text'' (error_msg E e)])"
proof (cases "fst (call_tool_body E g w name arguments)")
  case (Inl e)
  then show ?thesis
    by (auto simp add: call_tool_def split: prod.splits)
next
  case (Inr r)
  from call_tool_body_single [OF Inr] obtain t where "r = [TextContent ''text'' t]"
    by (auto simp add: single_text_def)
  with Inr show ?thesis
    by (auto simp add: call_tool_def split: prod.splits)
qed

lemma missing_model_raises:
  "fst (call_tool_body sample_env (Some live_sample_client) [] ''search_records'' [])
     = Inl (KeyError (PStr ''model''))"
  by (simp add: call_tool_body_def live_client_def live_sample run_tool_def tool_search_records_def)

theorem call_tool_catches_everything_witness:
  "fst (call_tool sample_env (Some live_sample_client) [] ''search_records'' [])
     = [TextContent ''text'' (error_msg sample_env (KeyError (PStr ''model'')))]"
  using call_tool_catches_everything [where E = sample_env and g = "Some live_sample_client"
      and w = "[]" and name = "''search_records''" and arguments = "[]"] missing_model_raises
  by simp


lemma call_tool_body_routed:
  assumes "name \<noteq> ''connect_odoo''" "ensure_session E g w = Some (c, g', w')"
  shows "call_tool_body E g w name a = (fst (run_tool E c w' name a), g', snd (run_tool E c w' name a))"
  using assms
  by (auto simp add: call_tool_body_def ensure_session_def split: option.splits prod.splits sum.splits)

lemma initialize_odoo_calls:
  "initialize_odoo E g w = (r, g', w') \<Longrightarrow>
     \<exists>calls. w' = w @ calls \<and> list_all (\<lambda>r. \<not> is_data_call r) calls"
  by (auto simp add: initialize_odoo_def connect_def get_version_def call_remote_def
      split: sum.splits prod.splits bool.splits)

lemma call_tool_not_connected:
  assumes "name \<noteq> ''connect_odoo''" and "live_client g = None"
    and "initialize_odoo E g w = (Inr success, g', w')" and "live_client g' = None"
  shows "call_tool E g w name a = ([TextContent ''text'' no_connection_msg], g', w')
         \<and> (\<exists>calls. w' = w @ calls \<and> list_all (\<lambda>r. \<not> is_data_call r) calls)"
  using assms initialize_odoo_calls [of E g w "Inr success" g' w']
  by (simp add: call_tool_def call_tool_body_def)

lemma initialize_rejected:
  "initialize_odoo rejecting_env None []
     = (Inr False, Some rejected_client, [authenticate_call guessing_client])"
proof -
  have cfg: "config rejecting_env = wrong_password_config"
    by (simp add: rejecting_env_def)
  have init: "OdooClient_init rejecting_env
      (PStr ''http://localhost:8069'') (PStr ''demo'') (PStr ''admin'') (PStr ''guess'')
     = Inr guessing_client"
    by (simp add: OdooClient_init_def rejecting_env_def sample_env_def fresh_client_def
        guessing_client_def)
  have conn: "connect rejecting_env guessing_client []
     = (False, rejected_client, [authenticate_call guessing_client])"
    by (simp add: connect_def call_remote_def authenticate_call_def rejecting_env_def sample_env_def
        fresh_client_def rejected_client_def guessing_client_def)
  show ?thesis
    unfolding initialize_odoo_def cfg wrong_password_config_def
    by (simp add: init conn)
qed

lemma rejected_not_live: "live_client (Some rejected_client) = None"
  by (simp add: live_client_def rejected_client_def)






lemma tool_list_models_world:
  "snd (tool_list_models E c w) = snd (list_models E c w)"
  by (auto simp add: tool_list_models_def split: prod.splits sum.splits)

lemma tool_search_records_world:
  "map_of a ''model'' = Some model \<Longrightarrow>
   snd (tool_search_records E c w a)
     = snd (search_read E c w model (Some (args_get a ''domain'' (PList [])))
              (Some (args_get a ''fields'' (PList []))) (Some (args_get a ''limit'' (PInt 10))))"
  by (auto simp add: tool_search_records_def Let_def split: prod.splits sum.splits)

lemma tool_read_record_world:
  "map_of a ''model'' = Some model \<Longrightarrow> map_of a ''record_id'' = Some record_id \<Longrightarrow>
   snd (tool_read_record E c w a)
     = snd (read E c w model (PList [record_id]) (Some (args_get a ''fields'' (PList []))))"
  by (auto simp add: tool_read_record_def Let_def split: prod.splits sum.splits)

lemma tool_create_record_world:
  "map_of a ''model'' = Some model \<Longrightarrow> map_of a ''values'' = Some vals \<Longrightarrow>
   snd (tool_create_record E c w a) = snd (create E c w model vals)"
  by (auto simp add: tool_create_record_def split: prod.splits sum.splits)

lemma tool_update_record_world:
  "map_of a ''model'' = Some model \<Longrightarrow> map_of a ''record_id'' = Some record_id \<Longrightarrow>
   map_of a ''values'' = Some vals \<Longrightarrow>
   snd (tool_update_record E c w a) = snd (update E c w model (PList [record_id]) vals)"
  by (auto simp add: tool_update_record_def split: prod.splits sum.splits)

lemma tool_delete_record_world:
  "map_of a ''model'' = Some model \<Longrightarrow> map_of a ''record_id'' = Some record_id \<Longrightarrow>
   snd (tool_delete_record E c w a) = snd (delete E c w model (PList [record_id]))"
  by (auto simp add: tool_delete_record_def split: prod.splits sum.splits)

lemma tool_get_model_fields_world:
  "map_of a ''model'' = Some model \<Longrightarrow>
   snd (tool_get_model_fields E c w a) = snd (get_fields E c w model)"
  by (auto simp add: tool_get_model_fields_def split: prod.splits sum.splits)

lemma call_tool_world_routed:
  assumes "name \<noteq> ''connect_odoo''" "ensure_session E g w = Some (c, g', w')"
  shows "snd (snd (call_tool E g w name a)) = snd (run_tool E c w' name a)"
  using call_tool_body_routed [OF assms, of a]
  by (simp add: call_tool_def split: sum.splits)

lemma call_tool_connect:
  "snd (call_tool E g w ''connect_odoo'' a) = snd (initialize_odoo E g w)"
  by (auto simp add: call_tool_def call_tool_body_def split: prod.splits sum.splits)

text \<open>
  Claim C6, as the code has it. \<^verbatim>\<open>list_tools\<close> is a constant: the eight tools
  \<^verbatim>\<open>connect_odoo\<close>, \<^verbatim>\<open>list_models\<close>, \<^verbatim>\<open>search_records\<close>, \<^verbatim>\<open>read_record\<close>, \<^verbatim>\<open>create_record\<close>,
  \<^verbatim>\<open>update_record\<close>, \<^verbatim>\<open>delete_record\<close> and \<^verbatim>\<open>get_model_fields\<close>, each with an object schema.
  \<^verbatim>\<open>connect_odoo\<close> runs \<^verbatim>\<open>initialize_odoo\<close>. Once the connection check has a session (one
  that exists, or one the automatic connection has just made), each other name makes
  the calls of its client method (\<^verbatim>\<open>list_models\<close>, \<^verbatim>\<open>search_read\<close>, \<^verbatim>\<open>read\<close>, \<^verbatim>\<open>create\<close>,
  \<^verbatim>\<open>update\<close>, \<^verbatim>\<open>delete\<close>, \<^verbatim>\<open>get_fields\<close>) on the arguments given, and any name outside
  the catalog gets the unknown-tool text. When there is no session and the automatic
  \<^verbatim>\<open>initialize_odoo\<close> returns without one, every name other than \<^verbatim>\<open>connect_odoo\<close>, in the
  catalog or not, gets the not-connected text and the world is left as the
  connection attempt left it.
\<close>

theorem catalog_and_routing:
  "map tool_name list_tools = tool_names
   \<and> list_all (\<lambda>t. py_getitem (inputSchema t) ''type'' = Inr (PStr ''object'')) list_tools
   \<and> snd (call_tool E g w ''connect_odoo'' a) = snd (initialize_odoo E g w)
   \<and> (ensure_session E g w = Some (c, g', w') \<longrightarrow>
        snd (snd (call_tool E g w ''list_models'' a)) = snd (list_models E c w')
      \<and> (map_of a ''model'' = Some model \<longrightarrow>
            snd (snd (call_tool E g w ''search_records'' a))
              = snd (search_read E c w' model (Some (args_get a ''domain'' (PList [])))
                       (Some (args_get a ''fields'' (PList []))) (Some (args_get a ''limit'' (PInt 10))))
          \<and> snd (snd (call_tool E g w ''get_model_fields'' a)) = snd (get_fields E c w' model))
      \<and> (map_of a ''model'' = Some model \<and> map_of a ''record_id'' = Some record_id \<longrightarrow>
            snd (snd (call_tool E g w ''read_record'' a))
              = snd (read E c w' model (PList [record_id]) (Some (args_get a ''fields'' (PList []))))
          \<and> snd (snd (call_tool E g w ''delete_record'' a))
              = snd (delete E c w' model (PList [record_id])))
      \<and> (map_of a ''model'' = Some model \<and> map_of a ''values'' = Some vals \<longrightarrow>
            snd (snd (call_tool E g w ''create_record'' a)) = snd (create E c w' model vals))
      \<and> (map_of a ''model'' = Some model \<and> map_of a ''record_id'' = Some record_id
          \<and> map_of a ''values'' = Some vals \<longrightarrow>
            snd (snd (call_tool E g w ''update_record'' a))
              = snd (update E c w' model (PList [record_id]) vals))
      \<and> (name \<notin> set tool_names \<longrightarrow>
            call_tool E g w name a = ([TextContent ''text'' (unknown_tool_msg name)], g', w')))
   \<and> (other \<noteq> ''connect_odoo'' \<and> live_client g = None
       \<and> initialize_odoo E g w = (Inr success, gn, wn) \<and> live_client gn = None \<longrightarrow>
         call_tool E g w other a = ([TextContent ''text'' no_connection_msg], gn, wn))"
proof (intro conjI impI)
  show "map tool_name list_tools = tool_names"
    by (simp add: list_tools_def tool_names_def)
  show "list_all (\<lambda>t. py_getitem (inputSchema t) ''type'' = Inr (PStr ''object'')) list_tools"
    by (simp add: list_tools_def object_schema_def)
  show "snd (call_tool E g w ''connect_odoo'' a) = snd (initialize_odoo E g w)"
    by (rule call_tool_connect)
next
  assume s: "ensure_session E g w = Some (c, g', w')"
  show "snd (snd (call_tool E g w ''list_models'' a)) = snd (list_models E c w')"
    using call_tool_world_routed [OF _ s, of "''list_models''" a]
    by (simp add: run_tool_def tool_list_models_world)
next
  assume s: "ensure_session E g w = Some (c, g', w')" and m: "map_of a ''model'' = Some model"
  show "snd (snd (call_tool E g w ''search_records'' a))
              = snd (search_read E c w' model (Some (args_get a ''domain'' (PList [])))
                       (Some (args_get a ''fields'' (PList []))) (Some (args_get a ''limit'' (PInt 10))))"
    using call_tool_world_routed [OF _ s, of "''search_records''" a]
    by (simp add: run_tool_def tool_search_records_world [OF m])
  show "snd (snd (call_tool E g w ''get_model_fields'' a)) = snd (get_fields E c w' model)"
    using call_tool_world_routed [OF _ s, of "''get_model_fields''" a]
    by (simp add: run_tool_def tool_get_model_fields_world [OF m])
next
  assume s: "ensure_session E g w = Some (c, g', w')"
    and m: "map_of a ''model'' = Some model \<and> map_of a ''record_id'' = Some record_id"
  show "snd (snd (call_tool E g w ''read_record'' a))
              = snd (read E c w' model (PList [record_id]) (Some (args_get a ''fields'' (PList []))))"
    using call_tool_world_routed [OF _ s, of "''read_record''" a] m
    by (simp add: run_tool_def tool_read_record_world)
  show "snd (snd (call_tool E g w ''delete_record'' a))
              = snd (delete E c w' model (PList [record_id]))"
    using call_tool_world_routed [OF _ s, of "''delete_record''" a] m
    by (simp add: run_tool_def tool_delete_record_world)
next
  assume s: "ensure_session E g w = Some (c, g', w')"
    and m: "map_of a ''model'' = Some model \<and> map_of a ''values'' = Some vals"
  show "snd (snd (call_tool E g w ''create_record'' a)) = snd (create E c w' model vals)"
    using call_tool_world_routed [OF _ s, of "''create_record''" a] m
    by (simp add: run_tool_def tool_create_record_world)
next
  assume s: "ensure_session E g w = Some (c, g', w')"
    and m: "map_of a ''model'' = Some model \<and> map_of a ''record_id'' = Some record_id
          \<and> map_of a ''values'' = Some vals"
  show "snd (snd (call_tool E g w ''update_record'' a))
              = snd (update E c w' model (PList [record_id]) vals)"
    using call_tool_world_routed [OF _ s, of "''update_record''" a] m
    by (simp add: run_tool_def tool_update_record_world)
next
  assume s: "ensure_session E g w = Some (c, g', w')" and n: "name \<notin> set tool_names"
  from n have "name \<noteq> ''connect_odoo''"
    by (auto simp add: tool_names_def)
  from call_tool_body_routed [OF this s, of a] n
  show "call_tool E g w name a = ([TextContent ''text'' (unknown_tool_msg name)], g', w')"
    by (simp add: call_tool_def run_tool_def tool_names_def)
next
  assume "other \<noteq> ''connect_odoo'' \<and> live_client g = None
       \<and> initialize_odoo E g w = (Inr success, gn, wn) \<and> live_client gn = None"
  then show "call_tool E g w other a = ([TextContent ''text'' no_connection_msg], gn, wn)"
    using call_tool_not_connected [of other g E w success gn wn a] by simp
qed


lemma initialize_sample:
  "initialize_odoo sample_env None []
     = (Inr True, Some live_sample_client,
        [authenticate_call fresh_client, Version (common fresh_client)])"
proof -
  have cfg: "config sample_env = sample_config"
    by (simp add: sample_env_def)
  have init: "OdooClient_init sample_env
      (PStr ''http://localhost:8069'') (PStr ''demo'') (PStr ''admin'') (PStr ''admin'')
     = Inr fresh_client"
    by (simp add: OdooClient_init_def sample_env_def fresh_client_def)
  have conn: "connect sample_env fresh_client []
     = (True, live_sample_client, [authenticate_call fresh_client])"
    by (simp add: connect_def call_remote_def authenticate_call_def live_sample_client_def
        sample_env_def fresh_client_def)
  have ver: "get_version sample_env live_sample_client [authenticate_call fresh_client]
     = (PDict [(''server_serie'', PStr ''18.0'')],
        [authenticate_call fresh_client, Version (common fresh_client)])"
    by (simp add: get_version_def call_remote_def live_sample_client_def sample_env_def)
  show ?thesis
    unfolding initialize_odoo_def cfg sample_config_def
    by (simp add: init conn ver)
qed

theorem catalog_and_routing_witness:
  "call_tool sample_env None [] ''frobnicate'' sample_arguments
     = ([TextContent ''text'' (unknown_tool_msg ''frobnicate'')], Some live_sample_client,
        [authenticate_call fresh_client, Version (common fresh_client)])
   \<and> snd (snd (call_tool sample_env None [] ''create_record'' sample_arguments))
     = snd (create sample_env live_sample_client
              [authenticate_call fresh_client, Version (common fresh_client)]
              (PStr ''res.partner'') ada)
   \<and> snd (snd (call_tool sample_env None [] ''update_record'' sample_arguments))
     = snd (update sample_env live_sample_client
              [authenticate_call fresh_client, Version (common fresh_client)]
              (PStr ''res.partner'') (PList [PInt 1]) ada)
   \<and> call_tool rejecting_env None [] ''create_record'' sample_arguments
     = ([TextContent ''text'' no_connection_msg], Some rejected_client,
        [authenticate_call guessing_client])"
proof -
  have session: "ensure_session sample_env None []
      = Some (live_sample_client, Some live_sample_client,
              [authenticate_call fresh_client, Version (common fresh_client)])"
    by (simp add: ensure_session_def live_client_def initialize_sample live_sample)
  have args: "map_of sample_arguments ''model'' = Some (PStr ''res.partner'')"
    "map_of sample_arguments ''record_id'' = Some (PInt 1)"
    "map_of sample_arguments ''values'' = Some ada"
    by (simp_all add: sample_arguments_def)
  have unknown: "''frobnicate'' \<notin> set tool_names"
    by (simp add: tool_names_def)
  have none: "live_client None = None"
    by (simp add: live_client_def)
  have other: "''create_record'' \<noteq> ''connect_odoo''"
    by simp
  from catalog_and_routing [where E = sample_env and g = None and w = "[]"
      and c = live_sample_client and g' = "Some live_sample_client"
      and w' = "[authenticate_call fresh_client, Version (common fresh_client)]"
      and a = sample_arguments and model = "PStr ''res.partner''" and record_id = "PInt 1"
      and vals = ada and name = "''frobnicate''" and other = "''connect_odoo''"
      and success = True and gn = None and wn = "[]"]
    session args unknown
  have routed: "call_tool sample_env None [] ''frobnicate'' sample_arguments
     = ([TextContent ''text'' (unknown_tool_msg ''frobnicate'')], Some live_sample_client,
        [authenticate_call fresh_client, Version (common fresh_client)])
   \<and> snd (snd (call_tool sample_env None [] ''create_record'' sample_arguments))
     = snd (create sample_env live_sample_client
              [authenticate_call fresh_client, Version (common fresh_client)]
              (PStr ''res.partner'') ada)
   \<and> snd (snd (call_tool sample_env None [] ''update_record'' sample_arguments))
     = snd (update sample_env live_sample_client
              [authenticate_call fresh_client, Version (common fresh_client)]
              (PStr ''res.partner'') (PList [PInt 1]) ada)"
    by simp
  from catalog_and_routing [where E = rejecting_env and g = None and w = "[]"
      and c = live_sample_client and g' = None and w' = "[]"
      and a = sample_arguments and model = "PStr ''res.partner''" and record_id = "PInt 1"
      and vals = ada and name = "''frobnicate''" and other = "''create_record''"
      and success = False and gn = "Some rejected_client"
      and wn = "[authenticate_call guessing_client]"]
    none other initialize_rejected rejected_not_live
  have refused: "call_tool rejecting_env None [] ''create_record'' sample_arguments
     = ([TextContent ''text'' no_connection_msg], Some rejected_client,
        [authenticate_call guessing_client])"
    by simp
  from routed refused show ?thesis by simp
qed

text \<open>
  Claim C6 as stated fails: the connection check comes before the dispatch on the
  name, so a name outside the catalog, called while the server rejects the
  credentials, gets the not-connected message and not the unknown-tool text.
\<close>

theorem unknown_tool_counterexample:
  "call_tool rejecting_env None [] ''frobnicate'' []
     = ([TextContent ''text'' no_connection_msg], Some rejected_client,
        [authenticate_call guessing_client])
   \<and> ''frobnicate'' \<notin> set (map tool_name list_tools)
   \<and> no_connection_msg \<noteq> unknown_tool_msg ''frobnicate''"
proof (intro conjI)
  show "call_tool rejecting_env None [] ''frobnicate'' []
     = ([TextContent ''text'' no_connection_msg], Some rejected_client,
        [authenticate_call guessing_client])"
    by (simp add: call_tool_def call_tool_body_def live_client_def initialize_rejected
        rejected_client_def)
  show "''frobnicate'' \<notin> set (map tool_name list_tools)"
    by (simp add: list_tools_def)
  show "no_connection_msg \<noteq> unknown_tool_msg ''frobnicate''"
    by (simp add: no_connection_msg_def unknown_tool_msg_def)
qed

end
